theory Spec2Isabelle
  imports Main
begin

section \<open>Strings and numbers as the TypeScript sources use them\<close>

text \<open>
  The repository's integration layer is the file \<^verbatim>\<open>api-clients.ts\<close>, present in two versions
  (\<^verbatim>\<open>src/unnamed/part_001\<close> and \<^verbatim>\<open>src/unnamed/part_000\<close>), and \<^verbatim>\<open>server-actions.ts\<close>
  (\<^verbatim>\<open>src/unnamed/part_002\<close>). Where the two versions of \<^verbatim>\<open>api-clients.ts\<close> have the same text
  the function is modelled once; where they differ the definition taken from
  \<^verbatim>\<open>part_000\<close> carries the suffix \<open>_part000\<close>.

  Strings are \<open>char list\<close>; the prefixes and separators the code tests are ASCII.
  JavaScript numbers are modelled as unbounded integers (plus \<open>NaN\<close> where a coercion
  can produce it): fractions, infinities and the loss of precision beyond \<open>2^53\<close> are
  outside the model.
\<close>

definition newline :: char where
  "newline = CHR 0x0A"

definition startsWith :: "string \<Rightarrow> string \<Rightarrow> bool" where
  "startsWith s p = (take (length p) s = p)"

text \<open>\<^verbatim>\<open>s.substring(1)\<close>\<close>

definition substring1 :: "string \<Rightarrow> string" where
  "substring1 s = drop 1 s"

text \<open>\<^verbatim>\<open>s.split("\n")\<close>: always at least one piece.\<close>

fun split_on :: "char \<Rightarrow> string \<Rightarrow> string list" where
  "split_on d [] = [[]]"
| "split_on d (c # cs) =
     (if c = d then [] # split_on d cs
      else (case split_on d cs of
              [] \<Rightarrow> [[c]]
            | l # ls \<Rightarrow> (c # l) # ls))"

text \<open>\<^verbatim>\<open>xs.join(sep)\<close> on an array of strings.\<close>

fun join :: "string \<Rightarrow> string list \<Rightarrow> string" where
  "join sep [] = []"
| "join sep [x] = x"
| "join sep (x # y # ys) = x @ sep @ join sep (y # ys)"

text \<open>\<^verbatim>\<open>s.includes(t)\<close>\<close>

fun str_includes :: "string \<Rightarrow> string \<Rightarrow> bool" where
  "str_includes [] t = (t = [])"
| "str_includes (c # cs) t = (startsWith (c # cs) t \<or> str_includes cs t)"

definition is_digit :: "char \<Rightarrow> bool" where
  "is_digit c = (c \<in> set ''0123456789'')"

text \<open>The value of a decimal digit: its position in \<^verbatim>\<open>0123456789\<close>.\<close>

definition digit_val :: "char \<Rightarrow> nat" where
  "digit_val c = length (takeWhile (\<lambda>d. d \<noteq> c) ''0123456789'')"

definition digit_char :: "nat \<Rightarrow> char" where
  "digit_char n = ''0123456789'' ! n"

text \<open>\<^verbatim>\<open>parseInt(s)\<close> on a string of decimal digits (what the capture group \<^verbatim>\<open>(\d+)\<close> holds).\<close>

definition parseInt :: "string \<Rightarrow> nat" where
  "parseInt s = foldl (\<lambda>a c. 10 * a + digit_val c) 0 s"

text \<open>The decimal text of a number, as a template literal produces it.\<close>

fun show_nat :: "nat \<Rightarrow> string" where
  "show_nat n = (if n < 10 then [digit_char n]
                 else show_nat (n div 10) @ [digit_char (n mod 10)])"

declare show_nat.simps [simp del]

definition show_int :: "int \<Rightarrow> string" where
  "show_int i = (if i < 0 then CHR ''-'' # show_nat (nat (- i)) else show_nat (nat i))"

section \<open>PatchParser: \<^verbatim>\<open>parsePatch\<close>\<close>

datatype change_type = Add | Remove | Context

record change =
  lineNumber :: int
  ctype :: change_type
  content :: string

text \<open>
  The hunk-header expression \<^verbatim>\<open>/@@ -(\d+),?\d* \+(\d+),?\d* @@/\<close>. \<open>match_at s\<close> matches
  it at the start of \<open>s\<close> and returns capture group 2. Every quantifier is greedy and, in this
  expression, a shorter choice can only succeed where the longest one does (after a run of
  digits the next piece is a comma, a space or the literal text), so taking the longest run
  of digits and the comma whenever it is there is what the backtracking matcher returns.
\<close>

definition strip_prefix :: "string \<Rightarrow> string \<Rightarrow> string option" where
  "strip_prefix p s = (if startsWith s p then Some (drop (length p) s) else None)"

definition opt_comma :: "string \<Rightarrow> string" where
  "opt_comma s = (case s of [] \<Rightarrow> [] | c # cs \<Rightarrow> if c = CHR '','' then cs else c # cs)"

definition match_at :: "string \<Rightarrow> string option" where
  "match_at s =
     (case strip_prefix ''@@ -'' s of
        None \<Rightarrow> None
      | Some r1 \<Rightarrow>
          if takeWhile is_digit r1 = [] then None
          else
            (case strip_prefix '' +''
                    (dropWhile is_digit (opt_comma (dropWhile is_digit r1))) of
               None \<Rightarrow> None
             | Some r2 \<Rightarrow>
                 if takeWhile is_digit r2 = [] then None
                 else if startsWith (dropWhile is_digit (opt_comma (dropWhile is_digit r2))) '' @@''
                 then Some (takeWhile is_digit r2)
                 else None))"

text \<open>\<^verbatim>\<open>line.match(re)\<close> without the \<^verbatim>\<open>g\<close> flag: the leftmost position where the expression matches.\<close>

fun hunk_match :: "string \<Rightarrow> string option" where
  "hunk_match [] = match_at []"
| "hunk_match (c # cs) =
     (case match_at (c # cs) of
        Some g \<Rightarrow> Some g
      | None \<Rightarrow> hunk_match cs)"

text \<open>
  One iteration of \<^verbatim>\<open>for (const line of lines)\<close> on the pair of the mutable variables
  \<^verbatim>\<open>lineNumber\<close> and \<^verbatim>\<open>changes\<close>.
\<close>

definition parse_step :: "int \<times> change list \<Rightarrow> string \<Rightarrow> int \<times> change list" where
  "parse_step st line =
     (case st of (n, changes) \<Rightarrow>
        if startsWith line ''@@'' then
          (case hunk_match line of
             Some g \<Rightarrow> (int (parseInt g), changes)
           | None \<Rightarrow> (n, changes))
        else if startsWith line ''+'' then
          (n + 1, changes @ [\<lparr>lineNumber = n, ctype = Add, content = substring1 line\<rparr>])
        else if startsWith line ''-'' then
          (n, changes @ [\<lparr>lineNumber = n, ctype = Remove, content = substring1 line\<rparr>])
        else if startsWith line '' '' then
          (n + 1, changes @ [\<lparr>lineNumber = n, ctype = Context, content = substring1 line\<rparr>])
        else (n, changes))"

text \<open>The loop over the lines, from a given state of the two variables.\<close>

definition parse_loop :: "int \<times> change list \<Rightarrow> string list \<Rightarrow> int \<times> change list" where
  "parse_loop st ls = foldl parse_step st ls"

text \<open>\<^verbatim>\<open>parsePatch\<close>: the loop from \<^verbatim>\<open>lineNumber = 0\<close> and no change, then \<^verbatim>\<open>changes.slice(0, 20)\<close>.\<close>

definition parsePatch :: "string \<Rightarrow> change list" where
  "parsePatch patch = take 20 (snd (parse_loop (0, []) (split_on newline patch)))"

text \<open>The patch of the specification's regression case.\<close>

definition regression_patch :: string where
  "regression_patch = join [newline] [''@@ -1,3 +5,3 @@'', '' a'', ''-b'', ''+c'', '' d'']"




section \<open>JavaScript values\<close>

text \<open>
  A value of the running program: what \<^verbatim>\<open>response.json()\<close> can return (the raw payloads
  are typed \<^verbatim>\<open>any\<close>) and what the code computes from it. \<open>JNative\<close> stands for a built-in
  function or object reached through a prototype (\<^verbatim>\<open>[].entries\<close>, \<^verbatim>\<open>({}).constructor\<close>);
  a parsed payload contains none.
  An object is the list of its own properties; a key is looked up at its first binding.
\<close>

datatype jsval =
    JUndefined
  | JNull
  | JBool bool
  | JNum int
  | JNaN
  | JStr string
  | JArr "jsval list"
  | JObj "(string \<times> jsval) list"
  | JNative string

text \<open>
  What a \<^verbatim>\<open>throw\<close> or a rejected promise carries: an instance of \<^verbatim>\<open>Error\<close> (with its message;
  \<^verbatim>\<open>TypeError\<close>, \<^verbatim>\<open>RangeError\<close> and \<^verbatim>\<open>SyntaxError\<close> are instances too) or any other value.
\<close>

datatype exn = JsError string | JsThrown jsval

text \<open>A \<^verbatim>\<open>TypeError\<close> raised by the engine; its wording is the engine's, the text here names the cause.\<close>

definition type_error :: "string \<Rightarrow> exn" where
  "type_error what = JsError what"

definition thenE :: "exn + 'a \<Rightarrow> ('a \<Rightarrow> exn + 'b) \<Rightarrow> exn + 'b" where
  "thenE m f = (case m of Inl e \<Rightarrow> Inl e | Inr v \<Rightarrow> f v)"

fun sequenceE :: "(exn + 'a) list \<Rightarrow> exn + 'a list" where
  "sequenceE [] = Inr []"
| "sequenceE (m # ms) =
     (case m of
        Inl e \<Rightarrow> Inl e
      | Inr v \<Rightarrow> (case sequenceE ms of Inl e \<Rightarrow> Inl e | Inr vs \<Rightarrow> Inr (v # vs)))"

text \<open>\<^verbatim>\<open>xs.map(f)\<close> with a callback that may throw: the first exception ends the call.\<close>

fun mapE :: "('a \<Rightarrow> exn + 'b) \<Rightarrow> 'a list \<Rightarrow> exn + 'b list" where
  "mapE f [] = Inr []"
| "mapE f (x # xs) =
     (case f x of
        Inl e \<Rightarrow> Inl e
      | Inr y \<Rightarrow> (case mapE f xs of Inl e \<Rightarrow> Inl e | Inr ys \<Rightarrow> Inr (y # ys)))"

text \<open>\<^verbatim>\<open>xs.find(p)\<close>: the first element the callback accepts, \<open>None\<close> for \<^verbatim>\<open>undefined\<close>.\<close>

fun findE :: "('a \<Rightarrow> exn + bool) \<Rightarrow> 'a list \<Rightarrow> exn + 'a option" where
  "findE p [] = Inr None"
| "findE p (x # xs) =
     (case p x of
        Inl e \<Rightarrow> Inl e
      | Inr b \<Rightarrow> if b then Inr (Some x) else findE p xs)"

text \<open>What \<^verbatim>\<open>find\<close> returns as a value: the element, or \<^verbatim>\<open>undefined\<close>.\<close>

definition or_undefined :: "jsval option \<Rightarrow> jsval" where
  "or_undefined found = (case found of None \<Rightarrow> JUndefined | Some e \<Rightarrow> e)"

text \<open>\<^verbatim>\<open>xs.reduce(f, a)\<close>\<close>

fun reduceE :: "('b \<Rightarrow> 'a \<Rightarrow> exn + 'b) \<Rightarrow> 'b \<Rightarrow> 'a list \<Rightarrow> exn + 'b" where
  "reduceE f a [] = Inr a"
| "reduceE f a (x # xs) =
     (case f a x of
        Inl e \<Rightarrow> Inl e
      | Inr a' \<Rightarrow> reduceE f a' xs)"

fun truthy :: "jsval \<Rightarrow> bool" where
  "truthy JUndefined = False"
| "truthy JNull = False"
| "truthy (JBool b) = b"
| "truthy (JNum n) = (n \<noteq> 0)"
| "truthy JNaN = False"
| "truthy (JStr s) = (s \<noteq> [])"
| "truthy (JArr xs) = True"
| "truthy (JObj kvs) = True"
| "truthy (JNative n) = True"

text \<open>\<^verbatim>\<open>a || b\<close>, for a right operand whose evaluation has no effect.\<close>

definition js_or :: "jsval \<Rightarrow> jsval \<Rightarrow> jsval" where
  "js_or a b = (if truthy a then a else b)"

definition nullish :: "jsval \<Rightarrow> bool" where
  "nullish v = (v = JUndefined \<or> v = JNull)"

text \<open>
  \<^verbatim>\<open>v.k\<close> on a value that is neither \<^verbatim>\<open>undefined\<close> nor \<^verbatim>\<open>null\<close>, for the property names the
  sources read (\<^verbatim>\<open>metadata value culprit lastEvent entries type data values stacktrace frames
  function filename lineno colno id title level count lastSeen userCount files patch sha commit
  message author email date html_url additions deletions deployments uid state url created meta
  githubCommitSha githubCommitRef\<close>). Of these only \<^verbatim>\<open>entries\<close> and \<^verbatim>\<open>values\<close> exist on a built-in
  prototype (\<^verbatim>\<open>Array.prototype\<close>); every other read finds an own property or \<^verbatim>\<open>undefined\<close>.
\<close>

fun js_prop :: "jsval \<Rightarrow> string \<Rightarrow> jsval" where
  "js_prop (JObj kvs) k = (case map_of kvs k of Some x \<Rightarrow> x | None \<Rightarrow> JUndefined)"
| "js_prop (JArr xs) k = (if k = ''entries'' \<or> k = ''values'' then JNative k else JUndefined)"
| "js_prop v k = JUndefined"

text \<open>\<^verbatim>\<open>v.k\<close>: a \<^verbatim>\<open>TypeError\<close> on \<^verbatim>\<open>undefined\<close> and \<^verbatim>\<open>null\<close>.\<close>

definition js_get :: "jsval \<Rightarrow> string \<Rightarrow> exn + jsval" where
  "js_get v k =
     (if nullish v then Inl (type_error (''Cannot read properties of undefined or null: '' @ k))
      else Inr (js_prop v k))"

text \<open>\<^verbatim>\<open>v?.k\<close>\<close>

definition js_get_opt :: "jsval \<Rightarrow> string \<Rightarrow> jsval" where
  "js_get_opt v k = (if nullish v then JUndefined else js_prop v k)"

text \<open>\<^verbatim>\<open>v[0]\<close> on a value that is neither \<^verbatim>\<open>undefined\<close> nor \<^verbatim>\<open>null\<close>.\<close>

fun js_elem0 :: "jsval \<Rightarrow> jsval" where
  "js_elem0 (JArr xs) = (case xs of [] \<Rightarrow> JUndefined | x # _ \<Rightarrow> x)"
| "js_elem0 (JStr s) = (case s of [] \<Rightarrow> JUndefined | c # _ \<Rightarrow> JStr [c])"
| "js_elem0 (JObj kvs) = (case map_of kvs ''0'' of Some x \<Rightarrow> x | None \<Rightarrow> JUndefined)"
| "js_elem0 v = JUndefined"

text \<open>\<^verbatim>\<open>v?.[0]\<close>\<close>

definition js_elem0_opt :: "jsval \<Rightarrow> jsval" where
  "js_elem0_opt v = (if nullish v then JUndefined else js_elem0 v)"

text \<open>
  \<^verbatim>\<open>String(v)\<close>, as a template literal applies it. An object answers \<^verbatim>\<open>[object Object]\<close>
  through \<^verbatim>\<open>Object.prototype.toString\<close>, unless it has an own property \<^verbatim>\<open>toString\<close>: a parsed
  payload holds no function, so that property is not callable and the conversion throws a
  \<^verbatim>\<open>TypeError\<close>. An array joins its elements with commas, \<^verbatim>\<open>undefined\<close> and \<^verbatim>\<open>null\<close>
  as the empty string.
\<close>

fun js_toString :: "jsval \<Rightarrow> exn + string" where
  "js_toString JUndefined = Inr ''undefined''"
| "js_toString JNull = Inr ''null''"
| "js_toString (JBool b) = Inr (if b then ''true'' else ''false'')"
| "js_toString (JNum n) = Inr (show_int n)"
| "js_toString JNaN = Inr ''NaN''"
| "js_toString (JStr s) = Inr s"
| "js_toString (JArr xs) =
     (case sequenceE (map (\<lambda>x. if x = JUndefined \<or> x = JNull then Inr [] else js_toString x) xs) of
        Inl e \<Rightarrow> Inl e
      | Inr ss \<Rightarrow> Inr (join '','' ss))"
| "js_toString (JObj kvs) =
     (if map_of kvs ''toString'' = None then Inr ''[object Object]''
      else Inl (type_error ''Cannot convert object to primitive value''))"
| "js_toString (JNative n) = Inr (''function '' @ n @ ''() { [native code] }'')"

text \<open>\<^verbatim>\<open>ToPrimitive\<close> without a hint: arrays and objects end in their \<^verbatim>\<open>toString\<close>.\<close>

definition js_toPrimitive :: "jsval \<Rightarrow> exn + jsval" where
  "js_toPrimitive v =
     (case v of
        JArr xs \<Rightarrow> thenE (js_toString v) (\<lambda>s. Inr (JStr s))
      | JObj kvs \<Rightarrow> thenE (js_toString v) (\<lambda>s. Inr (JStr s))
      | JNative n \<Rightarrow> thenE (js_toString v) (\<lambda>s. Inr (JStr s))
      | _ \<Rightarrow> Inr v)"

text \<open>\<^verbatim>\<open>ToNumber\<close> on a primitive that is not a string.\<close>

fun js_toNumber :: "jsval \<Rightarrow> jsval" where
  "js_toNumber JNull = JNum 0"
| "js_toNumber (JBool b) = JNum (if b then 1 else 0)"
| "js_toNumber (JNum n) = JNum n"
| "js_toNumber v = JNaN"

fun num_add :: "jsval \<Rightarrow> jsval \<Rightarrow> jsval" where
  "num_add (JNum a) (JNum b) = JNum (a + b)"
| "num_add a b = JNaN"

fun is_JStr :: "jsval \<Rightarrow> bool" where
  "is_JStr (JStr s) = True"
| "is_JStr v = False"

text \<open>
  The binary \<^verbatim>\<open>+\<close>: both operands to primitives; if either is a string, the concatenation
  of their texts; otherwise the sum of their numbers.
\<close>

definition js_add :: "jsval \<Rightarrow> jsval \<Rightarrow> exn + jsval" where
  "js_add a b =
     thenE (js_toPrimitive a) (\<lambda>pa.
     thenE (js_toPrimitive b) (\<lambda>pb.
       if is_JStr pa \<or> is_JStr pb then
         thenE (js_toString pa) (\<lambda>sa.
         thenE (js_toString pb) (\<lambda>sb. Inr (JStr (sa @ sb))))
       else Inr (num_add (js_toNumber pa) (js_toNumber pb))))"

text \<open>\<^verbatim>\<open>xs.slice(0, n)\<close> and \<^verbatim>\<open>xs.slice(-5)\<close>: a negative bound counts from the end.\<close>

definition slice_to :: "int \<Rightarrow> 'a list \<Rightarrow> 'a list" where
  "slice_to n xs = take (nat (if n < 0 then int (length xs) + n else n)) xs"

definition slice_last5 :: "'a list \<Rightarrow> 'a list" where
  "slice_last5 xs = drop (length xs - 5) xs"

section \<open>The host: environment, clock and network\<close>

record env =
  SENTRY_AUTH_TOKEN :: "string option"
  SENTRY_ORG :: "string option"
  SENTRY_PROJECT_SLUG :: "string option"
  GITHUB_TOKEN :: "string option"
  VERCEL_TOKEN :: "string option"
  VERCEL_TEAM_ID :: "string option"

record request =
  req_url :: string
  req_method :: string
  req_headers :: "(string \<times> string) list"

text \<open>A response: \<^verbatim>\<open>ok\<close>, \<^verbatim>\<open>status\<close>, \<^verbatim>\<open>statusText\<close>, and what \<^verbatim>\<open>await response.json()\<close> gives or throws.\<close>

record response =
  resp_ok :: bool
  resp_status :: int
  resp_statusText :: string
  resp_json :: "exn + jsval"

text \<open>
  Everything outside the program. \<open>h_fetch\<close> answers a request, given the requests made
  before it, with a response or a rejection. \<open>h_clock d\<close> is the ISO text of the instant
  \<open>d\<close> milliseconds from the call (\<^verbatim>\<open>new Date().toISOString()\<close> is \<open>h_clock 0\<close>).
  \<open>h_dateISO v\<close> is \<^verbatim>\<open>new Date(v).toISOString()\<close>, which throws a \<^verbatim>\<open>RangeError\<close> on an
  invalid date. Console output is not modelled.
\<close>

record host =
  h_env :: env
  h_fetch :: "request list \<Rightarrow> request \<Rightarrow> exn + response"
  h_clock :: "int \<Rightarrow> string"
  h_dateISO :: "jsval \<Rightarrow> exn + string"

text \<open>\<^verbatim>\<open>await fetch(url, init)\<close>: the request is recorded in the log of network calls.\<close>

definition do_fetch :: "host \<Rightarrow> request \<Rightarrow> request list \<Rightarrow> (exn + response) \<times> request list" where
  "do_fetch h req log = (h_fetch h log req, log @ [req])"

text \<open>\<^verbatim>\<open>!v\<close> on a value of type \<^verbatim>\<open>string | undefined\<close>.\<close>

definition falsy_str :: "string option \<Rightarrow> bool" where
  "falsy_str v = (v = None \<or> v = Some [])"

text \<open>\<^verbatim>\<open>${v}\<close> on a value of type \<^verbatim>\<open>string | undefined\<close>.\<close>

definition tpl_str :: "string option \<Rightarrow> string" where
  "tpl_str v = (case v of None \<Rightarrow> ''undefined'' | Some s \<Rightarrow> s)"

text \<open>\<^verbatim>\<open>options.limit || d\<close>\<close>

definition limit_or :: "int option \<Rightarrow> int \<Rightarrow> int" where
  "limit_or l d = (case l of None \<Rightarrow> d | Some n \<Rightarrow> if n = 0 then d else n)"

section \<open>ErrorTrackingClient: \<^verbatim>\<open>fetchSentryIssues\<close>\<close>

datatype severity = Critical | Warning | Resolved

record issue =
  i_id :: jsval
  i_title :: jsval
  i_severity :: severity
  i_count :: jsval
  i_lastSeen :: jsval
  i_project :: string
  i_affectedUsers :: jsval
  i_stackTrace :: jsval

record issue_summary =
  s_critical :: nat
  s_warning :: nat
  s_resolved :: nat
  s_totalEvents :: jsval

record sentry_result =
  sr_issues :: "issue list"
  sr_summary :: issue_summary
  sr_timestamp :: string

record sentry_options =
  so_projectId :: "string option"
  so_severity :: "severity option"
  so_limit :: "int option"

text \<open>The callback of \<^verbatim>\<open>entries.find\<close>: \<^verbatim>\<open>e.type === 'exception'\<close>.\<close>

definition is_exception_entry :: "jsval \<Rightarrow> exn + bool" where
  "is_exception_entry e = thenE (js_get e ''type'') (\<lambda>t. Inr (t = JStr ''exception''))"

text \<open>
  The callback of \<^verbatim>\<open>frames.slice(-5).map\<close>:
  \<^verbatim>\<open>`at ${frame.function || 'anonymous'} (${frame.filename}:${frame.lineno}:${frame.colno})`\<close>.
\<close>

definition render_frame :: "jsval \<Rightarrow> exn + string" where
  "render_frame frame =
     thenE (js_get frame ''function'') (\<lambda>f.
     thenE (js_toString (js_or f (JStr ''anonymous''))) (\<lambda>fn.
     thenE (js_toString (js_prop frame ''filename'')) (\<lambda>file.
     thenE (js_toString (js_prop frame ''lineno'')) (\<lambda>line.
     thenE (js_toString (js_prop frame ''colno'')) (\<lambda>col.
       Inr (''at '' @ fn @ '' ('' @ file @ '':'' @ line @ '':'' @ col @ '')''))))))"

text \<open>
  \<^verbatim>\<open>exceptionEntry?.data?.values?.[0]?.stacktrace\<close>, where \<open>ex\<close> is what \<^verbatim>\<open>find\<close> returned.
\<close>

definition entry_stacktrace :: "jsval \<Rightarrow> jsval" where
  "entry_stacktrace ex =
     js_get_opt (js_elem0_opt (js_get_opt (js_get_opt ex ''data'') ''values'')) ''stacktrace''"

text \<open>
  \<^verbatim>\<open>frames.slice(-5).map(...).join('\n')\<close> for \<^verbatim>\<open>frames = stacktrace.frames || []\<close>: only an
  array has both \<^verbatim>\<open>slice\<close> and \<^verbatim>\<open>map\<close>.
\<close>

definition render_frames :: "jsval \<Rightarrow> exn + string" where
  "render_frames frames =
     (case frames of
        JArr fs \<Rightarrow> thenE (mapE render_frame (slice_last5 fs)) (\<lambda>ls. Inr (join [newline] ls))
      | _ \<Rightarrow> Inl (type_error ''frames.slice(...).map is not a function''))"

text \<open>
  The value of the local variable \<^verbatim>\<open>stackTrace\<close> after the \<^verbatim>\<open>if\<close> chain of \<^verbatim>\<open>part_001\<close>,
  lines 47 to 60.
\<close>

definition extractStackTrace :: "jsval \<Rightarrow> exn + jsval" where
  "extractStackTrace issue =
     thenE (js_get issue ''metadata'') (\<lambda>metadata.
       if truthy (js_get_opt metadata ''value'') then Inr (js_prop metadata ''value'')
       else if truthy (js_prop issue ''culprit'') then
         thenE (js_toString (js_prop issue ''culprit'')) (\<lambda>c. Inr (JStr (''at '' @ c)))
       else if truthy (js_get_opt (js_prop issue ''lastEvent'') ''entries'') then
         (case js_prop (js_prop issue ''lastEvent'') ''entries'' of
            JArr es \<Rightarrow>
              thenE (findE is_exception_entry es) (\<lambda>found.
                if truthy (entry_stacktrace (or_undefined found)) then
                  thenE (render_frames
                           (js_or (js_prop (entry_stacktrace (or_undefined found)) ''frames'')
                              (JArr [])))
                    (\<lambda>s. Inr (JStr s))
                else Inr (JStr []))
          | _ \<Rightarrow> Inl (type_error ''issue.lastEvent.entries.find is not a function''))
       else Inr (JStr []))"

text \<open>\<^verbatim>\<open>`${issue.title} (no stack trace available)`\<close>\<close>

definition no_trace_text :: "jsval \<Rightarrow> exn + jsval" where
  "no_trace_text issue =
     thenE (js_toString (js_prop issue ''title''))
       (\<lambda>t. Inr (JStr (t @ '' (no stack trace available)'')))"

definition classify :: "jsval \<Rightarrow> severity" where
  "classify level = (if level = JStr ''error'' \<or> level = JStr ''fatal'' then Critical else Warning)"

text \<open>The callback of \<^verbatim>\<open>issues.slice(...).map\<close> in \<^verbatim>\<open>part_001\<close>, lines 45 to 72.\<close>

definition transformIssue :: "string \<Rightarrow> jsval \<Rightarrow> exn + issue" where
  "transformIssue project issue =
     thenE (extractStackTrace issue) (\<lambda>stackTrace.
     thenE (if truthy stackTrace then Inr stackTrace else no_trace_text issue) (\<lambda>st.
       Inr \<lparr>i_id = js_prop issue ''id'',
            i_title = js_or (js_prop issue ''title'')
                        (js_or (js_get_opt (js_prop issue ''metadata'') ''type'')
                           (JStr ''Unknown error'')),
            i_severity = classify (js_prop issue ''level''),
            i_count = js_or (js_prop issue ''count'') (JNum 0),
            i_lastSeen = js_prop issue ''lastSeen'',
            i_project = (if project = [] then ''unknown'' else project),
            i_affectedUsers = js_or (js_prop issue ''userCount'') (JNum 0),
            i_stackTrace = st\<rparr>))"

text \<open>The same callback in \<^verbatim>\<open>part_000\<close>, lines 45 to 54.\<close>

definition transformIssue_part000 :: "string \<Rightarrow> jsval \<Rightarrow> exn + issue" where
  "transformIssue_part000 project issue =
     thenE (js_get issue ''id'') (\<lambda>ident.
       Inr \<lparr>i_id = ident,
            i_title = js_or (js_prop issue ''title'')
                        (js_or (js_get_opt (js_prop issue ''metadata'') ''type'')
                           (JStr ''Unknown error'')),
            i_severity = classify (js_prop issue ''level''),
            i_count = js_or (js_prop issue ''count'') (JNum 0),
            i_lastSeen = js_prop issue ''lastSeen'',
            i_project = (if project = [] then ''unknown'' else project),
            i_affectedUsers = js_or (js_prop issue ''userCount'') (JNum 0),
            i_stackTrace = js_or (js_get_opt (js_prop issue ''metadata'') ''value'') (JStr [])\<rparr>)"

text \<open>The summary: two \<^verbatim>\<open>filter(...).length\<close>, the literal \<^verbatim>\<open>0\<close>, and \<^verbatim>\<open>reduce((sum, i) => sum + i.count, 0)\<close>.\<close>

definition summarize :: "issue list \<Rightarrow> exn + issue_summary" where
  "summarize ts =
     thenE (reduceE (\<lambda>sum i. js_add sum (i_count i)) (JNum 0) ts) (\<lambda>total.
       Inr \<lparr>s_critical = length (filter (\<lambda>i. i_severity i = Critical) ts),
            s_warning = length (filter (\<lambda>i. i_severity i = Warning) ts),
            s_resolved = 0,
            s_totalEvents = total\<rparr>)"

text \<open>What the \<^verbatim>\<open>try\<close> block does with the parsed body.\<close>

definition sentry_body ::
  "(string \<Rightarrow> jsval \<Rightarrow> exn + issue) \<Rightarrow> host \<Rightarrow> string \<Rightarrow> sentry_options \<Rightarrow> jsval
     \<Rightarrow> exn + sentry_result" where
  "sentry_body transform h project options issues =
     (case issues of
        JArr xs \<Rightarrow>
          thenE (mapE (transform project) (slice_to (limit_or (so_limit options) 10) xs))
            (\<lambda>transformedIssues.
          thenE (summarize transformedIssues) (\<lambda>summary.
            Inr \<lparr>sr_issues = transformedIssues, sr_summary = summary,
                 sr_timestamp = h_clock h 0\<rparr>))
      | _ \<Rightarrow> Inl (JsError ''Invalid Sentry API response''))"

text \<open>The \<^verbatim>\<open>try\<close> block: the request, the status check, the body.\<close>

definition sentry_try ::
  "(string \<Rightarrow> jsval \<Rightarrow> exn + issue) \<Rightarrow> host \<Rightarrow> string \<Rightarrow> string \<Rightarrow> string
     \<Rightarrow> sentry_options \<Rightarrow> request list \<Rightarrow> (exn + sentry_result) \<times> request list" where
  "sentry_try transform h authToken org project options log =
     (case do_fetch h
             \<lparr>req_url = ''https://sentry.io/api/0/projects/'' @ org @ ''/'' @ project
                          @ ''/issues/?statsPeriod=14d&query=is:unresolved'',
              req_method = ''GET'',
              req_headers = [(''Authorization'', ''Bearer '' @ authToken)]\<rparr> log of
        (r, log') \<Rightarrow>
          (thenE r (\<lambda>response.
             if \<not> resp_ok response then
               Inl (JsError (''Sentry API error: '' @ resp_statusText response))
             else thenE (resp_json response) (sentry_body transform h project options)),
           log'))"

text \<open>
  \<^verbatim>\<open>fetchSentryIssues\<close>; the two versions of the file differ in the map callback and in
  \<^verbatim>\<open>getMockSentryData\<close>, which are the first two arguments here.
\<close>

definition fetchSentryIssues_with ::
  "(string \<Rightarrow> jsval \<Rightarrow> exn + issue) \<Rightarrow> ((int \<Rightarrow> string) \<Rightarrow> sentry_result) \<Rightarrow> host
     \<Rightarrow> sentry_options \<Rightarrow> request list \<Rightarrow> (exn + sentry_result) \<times> request list" where
  "fetchSentryIssues_with transform mock h options log =
     (let authToken = SENTRY_AUTH_TOKEN (h_env h);
          org = SENTRY_ORG (h_env h);
          project = (if falsy_str (so_projectId options) then SENTRY_PROJECT_SLUG (h_env h)
                     else so_projectId options)
      in if falsy_str authToken \<or> falsy_str org \<or> falsy_str project then
           (Inr (mock (h_clock h)), log)
         else
           (case sentry_try transform h (tpl_str authToken) (tpl_str org) (tpl_str project)
                   options log of
              (Inr result, log') \<Rightarrow> (Inr result, log')
            | (Inl error, log') \<Rightarrow> (Inr (mock (h_clock h)), log')))"

text \<open>\<^verbatim>\<open>getMockSentryData\<close> of \<^verbatim>\<open>part_001\<close>, lines 378 to 409.\<close>

definition getMockSentryData :: "(int \<Rightarrow> string) \<Rightarrow> sentry_result" where
  "getMockSentryData clock =
     \<lparr>sr_issues =
        [\<lparr>i_id = JStr ''94486645'',
          i_title = JStr ''ReferenceError: myUndefinedFunction is not defined'',
          i_severity = Critical,
          i_count = JNum 6,
          i_lastSeen = JStr (clock 0),
          i_project = ''javascript'',
          i_affectedUsers = JNum 5,
          i_stackTrace = JStr (join [newline]
            [''ReferenceError: myUndefinedFunction is not defined'',
             ''    at handleSubmit (src/components/ContactForm.tsx:45:12)'',
             ''    at HTMLButtonElement.callCallback (react-dom.production.min.js:3945:14)'',
             ''    at Object.invokeGuardedCallbackDev (react-dom.development.js:3994:16)'',
             ''    at invokeGuardedCallback (react-dom.production.min.js:4056:31)'',
             ''    at executeDispatch (react-dom.production.min.js:8551:3)'',
             [],
             ''Likely cause: Function was renamed from 'validateAndSubmit' to 'handleFormValidation' in commit abc123f but one call site was missed.'',
             ''File: src/components/ContactForm.tsx, Line 45'',
             ''Suggested fix: Import and use 'handleFormValidation' instead or restore 'myUndefinedFunction' as an alias.''])\<rparr>],
      sr_summary = \<lparr>s_critical = 1, s_warning = 0, s_resolved = 0, s_totalEvents = JNum 6\<rparr>,
      sr_timestamp = clock 0\<rparr>"

text \<open>\<^verbatim>\<open>getMockSentryData\<close> of \<^verbatim>\<open>part_000\<close>, lines 360 to 382.\<close>

definition getMockSentryData_part000 :: "(int \<Rightarrow> string) \<Rightarrow> sentry_result" where
  "getMockSentryData_part000 clock =
     \<lparr>sr_issues =
        [\<lparr>i_id = JStr ''SENTRY-MOCK-001'',
          i_title = JStr ''Mock Error: Configure SENTRY_AUTH_TOKEN to see real data'',
          i_severity = Warning,
          i_count = JNum 0,
          i_lastSeen = JStr (clock 0),
          i_project = ''demo-project'',
          i_affectedUsers = JNum 0,
          i_stackTrace = JStr ''Set SENTRY_AUTH_TOKEN, SENTRY_ORG, and SENTRY_PROJECT_SLUG in .env.local''\<rparr>],
      sr_summary = \<lparr>s_critical = 0, s_warning = 1, s_resolved = 0, s_totalEvents = JNum 0\<rparr>,
      sr_timestamp = clock 0\<rparr>"

definition fetchSentryIssues ::
  "host \<Rightarrow> sentry_options \<Rightarrow> request list \<Rightarrow> (exn + sentry_result) \<times> request list" where
  "fetchSentryIssues = fetchSentryIssues_with transformIssue getMockSentryData"

definition fetchSentryIssues_part000 ::
  "host \<Rightarrow> sentry_options \<Rightarrow> request list \<Rightarrow> (exn + sentry_result) \<times> request list" where
  "fetchSentryIssues_part000 = fetchSentryIssues_with transformIssue_part000 getMockSentryData_part000"

section \<open>SourceControlClient: \<^verbatim>\<open>fetchGitHubCommitDiff\<close>\<close>




















section \<open>DeploymentClient: \<^verbatim>\<open>fetchVercelDeployments\<close>\<close>

record deployment =
  d_id :: jsval
  d_projectName :: string
  d_status :: jsval
  d_url :: string
  d_createdAt :: string
  d_commitSha :: jsval
  d_branch :: jsval

record vercel_result =
  deployments :: "deployment list"

record vercel_options =
  vo_projectName :: string
  vo_limit :: "int option"

text \<open>The callback of \<^verbatim>\<open>data.deployments.map\<close>.\<close>

definition transformDeployment :: "host \<Rightarrow> string \<Rightarrow> jsval \<Rightarrow> exn + deployment" where
  "transformDeployment h projectName dep =
     thenE (js_get dep ''uid'') (\<lambda>uid.
     thenE (js_toString (js_prop dep ''url'')) (\<lambda>u.
     thenE (h_dateISO h (js_prop dep ''created'')) (\<lambda>created.
       Inr \<lparr>d_id = uid,
            d_projectName = projectName,
            d_status = js_prop dep ''state'',
            d_url = ''https://'' @ u,
            d_createdAt = created,
            d_commitSha = js_get_opt (js_prop dep ''meta'') ''githubCommitSha'',
            d_branch = js_get_opt (js_prop dep ''meta'') ''githubCommitRef''\<rparr>)))"

definition vercel_body :: "host \<Rightarrow> vercel_options \<Rightarrow> jsval \<Rightarrow> exn + vercel_result" where
  "vercel_body h options data =
     thenE (js_get data ''deployments'') (\<lambda>ds.
       case ds of
         JArr xs \<Rightarrow>
           thenE (mapE (transformDeployment h (vo_projectName options)) xs)
             (\<lambda>deps. Inr \<lparr>deployments = deps\<rparr>)
       | _ \<Rightarrow> Inl (type_error ''data.deployments.map is not a function''))"

definition vercel_list_url :: "string option \<Rightarrow> vercel_options \<Rightarrow> string" where
  "vercel_list_url teamId options =
     (if \<not> falsy_str teamId then
        ''https://api.vercel.com/v6/deployments?projectId='' @ vo_projectName options
          @ ''&limit='' @ show_int (limit_or (vo_limit options) 5) @ ''&teamId='' @ tpl_str teamId
      else
        ''https://api.vercel.com/v6/deployments?projectId='' @ vo_projectName options
          @ ''&limit='' @ show_int (limit_or (vo_limit options) 5))"

definition vercel_try ::
  "host \<Rightarrow> string \<Rightarrow> vercel_options \<Rightarrow> request list
     \<Rightarrow> (exn + vercel_result) \<times> request list" where
  "vercel_try h token options log =
     (case do_fetch h
             \<lparr>req_url = vercel_list_url (VERCEL_TEAM_ID (h_env h)) options,
              req_method = ''GET'',
              req_headers = [(''Authorization'', ''Bearer '' @ token)]\<rparr> log of
        (r, log') \<Rightarrow>
          (thenE r (\<lambda>response.
             if \<not> resp_ok response then
               Inl (JsError (''Vercel API error: '' @ resp_statusText response))
             else thenE (resp_json response) (vercel_body h options)),
           log'))"

definition getMockVercelDeployments :: "(int \<Rightarrow> string) \<Rightarrow> vercel_options \<Rightarrow> vercel_result" where
  "getMockVercelDeployments clock options =
     \<lparr>deployments =
        [\<lparr>d_id = JStr ''dpl_mock_current'',
          d_projectName = vo_projectName options,
          d_status = JStr ''READY'',
          d_url = ''https://'' @ vo_projectName options @ ''.vercel.app'',
          d_createdAt = clock 0,
          d_commitSha = JStr ''mock_sha_123'',
          d_branch = JStr ''main''\<rparr>]\<rparr>"

definition fetchVercelDeployments ::
  "host \<Rightarrow> vercel_options \<Rightarrow> request list \<Rightarrow> (exn + vercel_result) \<times> request list" where
  "fetchVercelDeployments h options log =
     (let token = VERCEL_TOKEN (h_env h)
      in if falsy_str token then (Inr (getMockVercelDeployments (h_clock h) options), log)
         else
           (case vercel_try h (tpl_str token) options log of
              (Inr result, log') \<Rightarrow> (Inr result, log')
            | (Inl error, log') \<Rightarrow> (Inr (getMockVercelDeployments (h_clock h) options), log')))"

section \<open>RollbackOrchestrator: \<^verbatim>\<open>executeVercelRollback\<close>\<close>

record rollback_options =
  ro_deploymentId :: string
  ro_projectName :: string
  ro_targetVersion :: "string option"
  ro_reason :: "string option"

text \<open>
  The object a rollback returns. \<^verbatim>\<open>previousDeploymentId\<close> is absent from the failure object,
  and the \<^verbatim>\<open>catch\<close> branch of \<^verbatim>\<open>executeVercelRollbackAction\<close> builds an object with neither
  \<^verbatim>\<open>status\<close> nor \<^verbatim>\<open>progress\<close>: these three fields are options.
\<close>

record rollback_result =
  rb_success :: bool
  rb_deploymentId :: string
  rb_previousDeploymentId :: "jsval option"
  rb_status :: "string option"
  rb_progress :: "int option"
  rb_message :: string
  rb_timestamp :: string

definition getMockRollbackResult :: "(int \<Rightarrow> string) \<Rightarrow> rollback_options \<Rightarrow> rollback_result" where
  "getMockRollbackResult clock options =
     \<lparr>rb_success = True,
      rb_deploymentId = ro_deploymentId options,
      rb_previousDeploymentId = Some (JStr ''dpl_mock_previous''),
      rb_status = Some ''completed'',
      rb_progress = Some 100,
      rb_message = ''Mock rollback completed for '' @ ro_projectName options
                     @ ''. Set VERCEL_TOKEN in .env.local for real rollbacks.'',
      rb_timestamp = clock 0\<rparr>"

text \<open>The predicate of \<^verbatim>\<open>deployments.find\<close>: \<^verbatim>\<open>d.id !== options.deploymentId && d.status === "READY"\<close>.\<close>

definition eligible :: "string \<Rightarrow> deployment \<Rightarrow> bool" where
  "eligible deploymentId d = (d_id d \<noteq> JStr deploymentId \<and> d_status d = JStr ''READY'')"

definition promote_url :: "string option \<Rightarrow> string \<Rightarrow> string" where
  "promote_url teamId target =
     (if \<not> falsy_str teamId then
        ''https://api.vercel.com/v13/deployments/'' @ target @ ''/promote?teamId='' @ tpl_str teamId
      else ''https://api.vercel.com/v13/deployments/'' @ target @ ''/promote'')"

definition promote_request :: "string option \<Rightarrow> string \<Rightarrow> string \<Rightarrow> request" where
  "promote_request teamId token target =
     \<lparr>req_url = promote_url teamId target,
      req_method = ''POST'',
      req_headers = [(''Authorization'', ''Bearer '' @ token)]\<rparr>"

text \<open>
  The \<^verbatim>\<open>try\<close> block from the selected target on: the promote request, the status check
  and the success object.
\<close>

definition promote ::
  "host \<Rightarrow> string \<Rightarrow> rollback_options \<Rightarrow> deployment \<Rightarrow> request list
     \<Rightarrow> (exn + rollback_result) \<times> request list" where
  "promote h token options targetDeployment log =
     (case js_toString (d_id targetDeployment) of
        Inl e \<Rightarrow> (Inl e, log)
      | Inr target \<Rightarrow>
          (case do_fetch h (promote_request (VERCEL_TEAM_ID (h_env h)) token target) log of
             (r, log') \<Rightarrow>
               (thenE r (\<lambda>response.
                  if \<not> resp_ok response then
                    Inl (JsError (''Vercel rollback error: '' @ resp_statusText response))
                  else
                    Inr \<lparr>rb_success = True,
                         rb_deploymentId = ro_deploymentId options,
                         rb_previousDeploymentId = Some (d_id targetDeployment),
                         rb_status = Some ''completed'',
                         rb_progress = Some 100,
                         rb_message = ''Successfully rolled back '' @ ro_projectName options
                                        @ '' to deployment '' @ target,
                         rb_timestamp = h_clock h 0\<rparr>),
                log')))"

text \<open>The \<^verbatim>\<open>try\<close> block of \<^verbatim>\<open>executeVercelRollback\<close>, \<^verbatim>\<open>part_001\<close> lines 225 to 267.\<close>

definition rollback_try ::
  "host \<Rightarrow> string \<Rightarrow> rollback_options \<Rightarrow> request list
     \<Rightarrow> (exn + rollback_result) \<times> request list" where
  "rollback_try h token options log =
     (case fetchVercelDeployments h
             \<lparr>vo_projectName = ro_projectName options, vo_limit = Some 10\<rparr> log of
        (Inl e, log1) \<Rightarrow> (Inl e, log1)
      | (Inr deploymentsData, log1) \<Rightarrow>
          (case find (eligible (ro_deploymentId options)) (deployments deploymentsData) of
             None \<Rightarrow> (Inl (JsError ''No suitable deployment found for rollback''), log1)
           | Some targetDeployment \<Rightarrow> promote h token options targetDeployment log1))"

text \<open>\<^verbatim>\<open>error instanceof Error ? error.message : "Unknown error"\<close>\<close>

definition error_message :: "exn \<Rightarrow> string" where
  "error_message e = (case e of JsError m \<Rightarrow> m | JsThrown v \<Rightarrow> ''Unknown error'')"

definition executeVercelRollback ::
  "host \<Rightarrow> rollback_options \<Rightarrow> request list \<Rightarrow> (exn + rollback_result) \<times> request list" where
  "executeVercelRollback h options log =
     (let token = VERCEL_TOKEN (h_env h)
      in if falsy_str token then (Inr (getMockRollbackResult (h_clock h) options), log)
         else
           (case rollback_try h (tpl_str token) options log of
              (Inr result, log') \<Rightarrow> (Inr result, log')
            | (Inl error, log') \<Rightarrow>
                (Inr \<lparr>rb_success = False,
                      rb_deploymentId = ro_deploymentId options,
                      rb_previousDeploymentId = None,
                      rb_status = Some ''failed'',
                      rb_progress = Some 0,
                      rb_message = ''Rollback failed: '' @ error_message error,
                      rb_timestamp = h_clock h 0\<rparr>,
                 log')))"

section \<open>The server action \<^verbatim>\<open>executeVercelRollbackAction\<close> (\<^verbatim>\<open>part_002\<close>)\<close>

record action_input =
  ai_deploymentId :: string
  ai_projectName :: string
  ai_targetDeploymentId :: "string option"

text \<open>
  The action passes its input object on as the options; \<^verbatim>\<open>executeVercelRollback\<close> reads
  \<^verbatim>\<open>deploymentId\<close> and \<^verbatim>\<open>projectName\<close> from it.
\<close>

definition as_options :: "action_input \<Rightarrow> rollback_options" where
  "as_options input =
     \<lparr>ro_deploymentId = ai_deploymentId input, ro_projectName = ai_projectName input,
      ro_targetVersion = None, ro_reason = None\<rparr>"

definition executeVercelRollbackAction ::
  "host \<Rightarrow> action_input \<Rightarrow> request list \<Rightarrow> rollback_result \<times> request list" where
  "executeVercelRollbackAction h input log =
     (case executeVercelRollback h (as_options input) log of
        (Inr result, log') \<Rightarrow> (result, log')
      | (Inl error, log') \<Rightarrow>
          (\<lparr>rb_success = False,
            rb_deploymentId = ai_deploymentId input,
            rb_previousDeploymentId = None,
            rb_status = None,
            rb_progress = None,
            rb_message = ''Failed to rollback: '' @ error_message error,
            rb_timestamp = h_clock h 0\<rparr>,
           log'))"

section \<open>Example hosts and payloads\<close>

text \<open>Concrete inputs at which the theorems below are instantiated.\<close>

definition no_env :: env where
  "no_env = \<lparr>SENTRY_AUTH_TOKEN = None, SENTRY_ORG = None, SENTRY_PROJECT_SLUG = None,
             GITHUB_TOKEN = None, VERCEL_TOKEN = None, VERCEL_TEAM_ID = None\<rparr>"

definition ok_response :: "jsval \<Rightarrow> response" where
  "ok_response body =
     \<lparr>resp_ok = True, resp_status = 200, resp_statusText = ''OK'', resp_json = Inr body\<rparr>"

definition example_clock :: "int \<Rightarrow> string" where
  "example_clock d = ''2024-01-01T00:00:00.000Z''"

text \<open>A host with no credentials, whose network rejects every request.\<close>

definition host_unconfigured :: host where
  "host_unconfigured =
     \<lparr>h_env = no_env,
      h_fetch = (\<lambda>log req. Inl (JsError ''fetch failed'')),
      h_clock = example_clock,
      h_dateISO = (\<lambda>v. Inl (JsError ''Invalid time value''))\<rparr>"

text \<open>A host with the deployment token, whose network rejects every request.\<close>

definition host_offline :: host where
  "host_offline =
     \<lparr>h_env = no_env\<lparr>VERCEL_TOKEN := Some ''tok''\<rparr>,
      h_fetch = (\<lambda>log req. Inl (JsError ''fetch failed'')),
      h_clock = example_clock,
      h_dateISO = (\<lambda>v. Inl (JsError ''Invalid time value''))\<rparr>"

definition default_sentry_options :: sentry_options where
  "default_sentry_options = \<lparr>so_projectId = None, so_severity = None, so_limit = None\<rparr>"

definition example_rollback :: rollback_options where
  "example_rollback =
     \<lparr>ro_deploymentId = ''dpl_3'', ro_projectName = ''shop'', ro_targetVersion = None,
      ro_reason = None\<rparr>"

definition example_action_input :: action_input where
  "example_action_input =
     \<lparr>ai_deploymentId = ''dpl_3'', ai_projectName = ''shop'', ai_targetDeploymentId = None\<rparr>"

text \<open>A raw deployment of the platform's list, and a host that lists the given ones and accepts the promotion.\<close>

definition raw_deployment :: "string \<Rightarrow> string \<Rightarrow> jsval" where
  "raw_deployment uid state =
     JObj [(''uid'', JStr uid), (''state'', JStr state), (''url'', JStr (uid @ ''.vercel.app'')),
           (''created'', JNum 1700000000000)]"

definition vercel_host :: "jsval list \<Rightarrow> host" where
  "vercel_host deps =
     \<lparr>h_env = no_env\<lparr>VERCEL_TOKEN := Some ''tok''\<rparr>,
      h_fetch = (\<lambda>log req.
        if req_method req = ''GET'' then Inr (ok_response (JObj [(''deployments'', JArr deps)]))
        else Inr (ok_response (JObj []))),
      h_clock = example_clock,
      h_dateISO = (\<lambda>v. Inr ''2023-11-14T22:13:20.000Z'')\<rparr>"

definition listed :: "string \<Rightarrow> string \<Rightarrow> deployment" where
  "listed uid state =
     \<lparr>d_id = JStr uid, d_projectName = ''shop'', d_status = JStr state,
      d_url = ''https://'' @ uid @ ''.vercel.app'', d_createdAt = ''2023-11-14T22:13:20.000Z'',
      d_commitSha = JUndefined, d_branch = JUndefined\<rparr>"

definition list_request :: request where
  "list_request =
     \<lparr>req_url = ''https://api.vercel.com/v6/deployments?projectId=shop&limit=10'',
      req_method = ''GET'', req_headers = [(''Authorization'', ''Bearer tok'')]\<rparr>"

text \<open>A host with the error-tracking credentials, whose network answers every request with the given body.\<close>

definition sentry_host :: "jsval \<Rightarrow> host" where
  "sentry_host body =
     \<lparr>h_env = no_env\<lparr>SENTRY_AUTH_TOKEN := Some ''tok'', SENTRY_ORG := Some ''acme'',
                      SENTRY_PROJECT_SLUG := Some ''web''\<rparr>,
      h_fetch = (\<lambda>log req. Inr (ok_response body)),
      h_clock = example_clock,
      h_dateISO = (\<lambda>v. Inl (JsError ''Invalid time value''))\<rparr>"

text \<open>Two issues as the error-tracking service sends them: the event count is a string.\<close>

definition string_count_issues :: jsval where
  "string_count_issues =
     JArr [JObj [(''id'', JStr ''1''), (''title'', JStr ''TypeError: x is undefined''),
                 (''culprit'', JStr ''app/main''), (''level'', JStr ''error''),
                 (''count'', JStr ''3''), (''userCount'', JNum 2),
                 (''lastSeen'', JStr ''2024-01-01T00:00:00Z'')],
           JObj [(''id'', JStr ''2''), (''title'', JStr ''Slow request''),
                 (''culprit'', JStr ''app/api''), (''level'', JStr ''warning''),
                 (''count'', JStr ''4''), (''userCount'', JNum 1),
                 (''lastSeen'', JStr ''2024-01-02T00:00:00Z'')]]"

text \<open>Raw issues for the branches of the stack trace extraction.\<close>

definition fatal_issue :: jsval where
  "fatal_issue =
     JObj [(''id'', JStr ''1''), (''title'', JStr ''Boom''), (''level'', JStr ''fatal''),
           (''culprit'', JStr ''app/main'')]"

definition info_issue :: jsval where
  "info_issue =
     JObj [(''id'', JStr ''2''), (''title'', JStr ''Slow''), (''level'', JStr ''info''),
           (''metadata'', JObj [(''value'', JStr ''x is not defined'')]),
           (''culprit'', JStr ''app/api'')]"

definition frame :: "string \<Rightarrow> int \<Rightarrow> jsval" where
  "frame fn line =
     JObj [(''function'', JStr fn), (''filename'', JStr ''app.js''), (''lineno'', JNum line),
           (''colno'', JNum 7)]"

definition message_entry :: jsval where
  "message_entry = JObj [(''type'', JStr ''message'')]"

definition exception_entry :: "jsval list \<Rightarrow> jsval" where
  "exception_entry fs =
     JObj [(''type'', JStr ''exception''),
           (''data'', JObj [(''values'',
              JArr [JObj [(''stacktrace'', JObj [(''frames'', JArr fs)])]])])]"

definition event_with_frames :: "jsval list \<Rightarrow> jsval" where
  "event_with_frames fs = JObj [(''entries'', JArr [message_entry, exception_entry fs])]"

definition six_frames :: "jsval list" where
  "six_frames = [frame ''a'' 1, frame ''b'' 2, frame ''c'' 3, frame ''d'' 4, frame ''e'' 5,
                 JObj [(''filename'', JStr ''app.js''), (''lineno'', JNum 6), (''colno'', JNum 7)]]"

definition framed_issue :: "jsval list \<Rightarrow> jsval" where
  "framed_issue fs =
     JObj [(''id'', JStr ''3''), (''title'', JStr ''Crash''), (''level'', JStr ''error''),
           (''lastEvent'', event_with_frames fs)]"

definition empty_value_issue :: jsval where
  "empty_value_issue =
     JObj [(''id'', JStr ''5''), (''title'', JStr ''Crash''),
           (''metadata'', JObj [(''value'', JStr [])]), (''culprit'', JStr ''app/main'')]"

definition bare_issue :: jsval where
  "bare_issue = JObj [(''id'', JStr ''4''), (''title'', JStr ''Crash'')]"

text \<open>What the map callback makes of the example issues.\<close>

definition transformed :: "string \<Rightarrow> string \<Rightarrow> severity \<Rightarrow> string \<Rightarrow> issue" where
  "transformed ident title sev trace =
     \<lparr>i_id = JStr ident, i_title = JStr title, i_severity = sev, i_count = JNum 0,
      i_lastSeen = JUndefined, i_project = ''web'', i_affectedUsers = JNum 0,
      i_stackTrace = JStr trace\<rparr>"

section \<open>Properties of the patch parser\<close>
















lemma split_on_nonempty: "split_on d s \<noteq> []"
  by (induction s) (auto split: list.splits)













text \<open>
  Claim C7, as the code has it. For the patch made of the hunk header \<^verbatim>\<open>@@ -1,3 +5,3 @@\<close>
  and the four lines \<^verbatim>\<open>" a"\<close>, \<^verbatim>\<open>"-b"\<close>, \<^verbatim>\<open>"+c"\<close>, \<^verbatim>\<open>" d"\<close>, \<open>parsePatch\<close> emits four
  records of types context, remove, add, context with the line numbers 5, 6, 6, 7: the
  context line \<^verbatim>\<open>" a"\<close> is numbered 5 and moves the counter to 6 before the remove line is
  read.
\<close>

theorem parsePatch_regression:
  "parsePatch regression_patch =
     [\<lparr>lineNumber = 5, ctype = Context, content = ''a''\<rparr>,
      \<lparr>lineNumber = 6, ctype = Remove, content = ''b''\<rparr>,
      \<lparr>lineNumber = 6, ctype = Add, content = ''c''\<rparr>,
      \<lparr>lineNumber = 7, ctype = Context, content = ''d''\<rparr>]"
  by code_simp

text \<open>Claim C7 as stated gives the line numbers 5, 5, 6, 6; the code does not.\<close>

theorem parsePatch_regression_counterexample:
  "map lineNumber (parsePatch regression_patch) \<noteq> [5, 5, 6, 6]"
  by code_simp

text \<open>At most 20 records are returned.\<close>

lemma parsePatch_truncates: "length (parsePatch patch) \<le> 20"
  by (simp add: parsePatch_def)

section \<open>Properties of the issue normalizer\<close>

text \<open>A map that did not throw gave one result per element.\<close>

lemma mapE_Inr_set:
  "mapE f xs = Inr ys \<Longrightarrow>
     length ys = length xs \<and> (\<forall>y \<in> set ys. \<exists>x \<in> set xs. f x = Inr y)"
  by (induction xs arbitrary: ys) (auto split: sum.splits)

lemma transformIssue_severity:
  "transformIssue project issue = Inr t \<Longrightarrow> i_severity t = classify (js_prop issue ''level'')"
  by (auto simp: transformIssue_def thenE_def split: sum.splits if_splits)

lemma transformIssue_part000_severity:
  "transformIssue_part000 project issue = Inr t \<Longrightarrow>
     i_severity t = classify (js_prop issue ''level'')"
  by (auto simp: transformIssue_part000_def thenE_def split: sum.splits if_splits)

text \<open>
  Claim C4. For every raw issue that the map callback of \<open>fetchSentryIssues\<close> transforms
  (in either version of the file): when its \<^verbatim>\<open>level\<close> is \<^verbatim>\<open>"error"\<close> or \<^verbatim>\<open>"fatal"\<close> the
  severity is critical; for every other level, absent included, it is warning; it is never
  resolved.
\<close>

theorem severity_classification:
  "(transformIssue project issue = Inr t \<longrightarrow>
      (js_prop issue ''level'' = JStr ''error'' \<or> js_prop issue ''level'' = JStr ''fatal''
         \<longrightarrow> i_severity t = Critical) \<and>
      (js_prop issue ''level'' \<noteq> JStr ''error'' \<and> js_prop issue ''level'' \<noteq> JStr ''fatal''
         \<longrightarrow> i_severity t = Warning) \<and>
      i_severity t \<noteq> Resolved) \<and>
   (transformIssue_part000 project issue = Inr t' \<longrightarrow>
      (js_prop issue ''level'' = JStr ''error'' \<or> js_prop issue ''level'' = JStr ''fatal''
         \<longrightarrow> i_severity t' = Critical) \<and>
      (js_prop issue ''level'' \<noteq> JStr ''error'' \<and> js_prop issue ''level'' \<noteq> JStr ''fatal''
         \<longrightarrow> i_severity t' = Warning) \<and>
      i_severity t' \<noteq> Resolved)"
  using transformIssue_severity[of project issue t]
    transformIssue_part000_severity[of project issue t']
  by (auto simp: classify_def)

lemma stack_of_info_issue:
  "transformIssue ''web'' info_issue = Inr (transformed ''2'' ''Slow'' Warning ''x is not defined'')"
  by code_simp

lemma stack_of_fatal_issue:
  "transformIssue ''web'' fatal_issue = Inr (transformed ''1'' ''Boom'' Critical ''at app/main'')"
  by code_simp

lemma stack_of_framed_issue:
  "transformIssue ''web'' (framed_issue six_frames) =
     Inr (transformed ''3'' ''Crash'' Critical
            (join [newline]
               [''at b (app.js:2:7)'', ''at c (app.js:3:7)'', ''at d (app.js:4:7)'',
                ''at e (app.js:5:7)'', ''at anonymous (app.js:6:7)'']))"
  by code_simp

lemma stack_of_unframed_issue:
  "transformIssue ''web'' (framed_issue []) =
     Inr (transformed ''3'' ''Crash'' Critical ''Crash (no stack trace available)'')"
  by code_simp

lemma stack_of_bare_issue:
  "transformIssue ''web'' bare_issue =
     Inr (transformed ''4'' ''Crash'' Warning ''Crash (no stack trace available)'')"
  by code_simp

lemma stack_of_fatal_issue_part000:
  "transformIssue_part000 ''web'' fatal_issue = Inr (transformed ''1'' ''Boom'' Critical [])"
  by code_simp

lemma framed_issue_facts:
  "\<not> truthy (js_get_opt (js_prop (framed_issue fs) ''metadata'') ''value'')"
  "\<not> truthy (js_prop (framed_issue fs) ''culprit'')"
  "js_get_opt (js_prop (framed_issue fs) ''lastEvent'') ''entries'' =
     JArr [message_entry, exception_entry fs]"
  by (simp_all add: framed_issue_def event_with_frames_def js_get_opt_def nullish_def)

lemma framed_issue_entry:
  "findE is_exception_entry [message_entry, exception_entry fs] = Inr (Some (exception_entry fs))"
  by (simp add: is_exception_entry_def thenE_def js_get_def nullish_def message_entry_def
      exception_entry_def)

lemma framed_issue_frames:
  "js_prop (entry_stacktrace (exception_entry fs)) ''frames'' = JArr fs"
  by (simp add: entry_stacktrace_def js_get_opt_def js_elem0_opt_def nullish_def
      exception_entry_def)

lemma six_frames_rendered:
  "mapE render_frame (slice_last5 six_frames) =
     Inr [''at b (app.js:2:7)'', ''at c (app.js:3:7)'', ''at d (app.js:4:7)'',
          ''at e (app.js:5:7)'', ''at anonymous (app.js:6:7)'']"
  by code_simp

lemma no_trace_text_crash:
  "no_trace_text (framed_issue []) = Inr (JStr ''Crash (no stack trace available)'')"
  "no_trace_text bare_issue = Inr (JStr ''Crash (no stack trace available)'')"
  by code_simp+

lemma stack_of_empty_value_issue:
  "transformIssue ''web'' empty_value_issue =
     Inr (transformed ''5'' ''Crash'' Warning ''at app/main'')"
  by code_simp

lemma stack_of_bare_issue_part000:
  "transformIssue_part000 ''web'' bare_issue = Inr (transformed ''4'' ''Crash'' Warning [])"
  by code_simp

text \<open>
  The theorem at an issue of level \<^verbatim>\<open>fatal\<close>, at one of level \<^verbatim>\<open>info\<close> and at one with no
  level.
\<close>

theorem severity_classification_witness:
  "(\<exists>t. transformIssue ''web'' fatal_issue = Inr t \<and> i_severity t = Critical) \<and>
   (\<exists>t. transformIssue ''web'' info_issue = Inr t \<and> i_severity t = Warning) \<and>
   (\<exists>t. transformIssue_part000 ''web'' fatal_issue = Inr t \<and> i_severity t = Critical) \<and>
   (\<exists>t. transformIssue_part000 ''web'' bare_issue = Inr t \<and> i_severity t = Warning)"
proof -
  have l1: "js_prop fatal_issue ''level'' = JStr ''fatal''"
    by (simp add: fatal_issue_def)
  have l2: "js_prop info_issue ''level'' \<noteq> JStr ''error'' \<and>
            js_prop info_issue ''level'' \<noteq> JStr ''fatal''"
    by (simp add: info_issue_def)
  have l3: "js_prop bare_issue ''level'' \<noteq> JStr ''error'' \<and>
            js_prop bare_issue ''level'' \<noteq> JStr ''fatal''"
    by (simp add: bare_issue_def)
  obtain t1 where t1: "transformIssue ''web'' fatal_issue = Inr t1"
    using stack_of_fatal_issue by blast
  obtain t2 where t2: "transformIssue ''web'' info_issue = Inr t2"
    using stack_of_info_issue by blast
  obtain t3 where t3: "transformIssue_part000 ''web'' fatal_issue = Inr t3"
    using stack_of_fatal_issue_part000 by blast
  obtain t4 where t4: "transformIssue_part000 ''web'' bare_issue = Inr t4"
    using stack_of_bare_issue_part000 by blast
  have w1: "i_severity t1 = Critical"
    using severity_classification[of "''web''" fatal_issue t1 t3] t1 l1 by blast
  have w2: "i_severity t2 = Warning"
    using severity_classification[of "''web''" info_issue t2 t2] t2 l2 by blast
  have w3: "i_severity t3 = Critical"
    using severity_classification[of "''web''" fatal_issue t1 t3] t3 l1 by blast
  have w4: "i_severity t4 = Warning"
    using severity_classification[of "''web''" bare_issue t4 t4] t4 l3 by blast
  from t1 t2 t3 t4 w1 w2 w3 w4 show ?thesis by blast
qed

section \<open>Properties of the stack trace extraction\<close>

lemma render_frame_nonempty: "render_frame f = Inr s \<Longrightarrow> s \<noteq> []"
  by (auto simp: render_frame_def thenE_def split: sum.splits)

lemma join_nonempty: "ls \<noteq> [] \<Longrightarrow> hd ls \<noteq> [] \<Longrightarrow> join sep ls \<noteq> []"
  by (induction sep ls rule: join.induct) auto

lemma slice_last5_nonempty: "fs \<noteq> [] \<Longrightarrow> slice_last5 fs \<noteq> []"
  by (cases fs) (auto simp: slice_last5_def)

text \<open>The text rendered from at least one frame is not empty.\<close>

lemma rendered_frames_text:
  assumes "mapE render_frame (slice_last5 fs) = Inr ls" and "fs \<noteq> []"
  shows "join [newline] ls \<noteq> []"
proof -
  from assms have len: "length ls = length (slice_last5 fs)"
    and each: "\<forall>y \<in> set ls. \<exists>x \<in> set (slice_last5 fs). render_frame x = Inr y"
    using mapE_Inr_set[of render_frame "slice_last5 fs" ls] by auto
  from len assms(2) have ne: "ls \<noteq> []" using slice_last5_nonempty[of fs] by auto
  then have "hd ls \<in> set ls" by simp
  with each have "hd ls \<noteq> []" using render_frame_nonempty by blast
  with ne show ?thesis by (rule join_nonempty)
qed

text \<open>The local variable \<^verbatim>\<open>stackTrace\<close> after the \<^verbatim>\<open>if\<close> chain, branch by branch.\<close>

lemma extract_cases:
  assumes "extractStackTrace issue = Inr v"
  shows "(truthy (js_get_opt (js_prop issue ''metadata'') ''value'') \<longrightarrow>
            v = js_get_opt (js_prop issue ''metadata'') ''value'') \<and>
         (\<not> truthy (js_get_opt (js_prop issue ''metadata'') ''value'') \<and>
          truthy (js_prop issue ''culprit'') \<longrightarrow>
            (\<exists>c. js_toString (js_prop issue ''culprit'') = Inr c \<and> v = JStr (''at '' @ c))) \<and>
         (\<not> truthy (js_get_opt (js_prop issue ''metadata'') ''value'') \<and>
          \<not> truthy (js_prop issue ''culprit'') \<and>
          truthy (js_get_opt (js_prop issue ''lastEvent'') ''entries'') \<longrightarrow>
            (\<exists>es found. js_get_opt (js_prop issue ''lastEvent'') ''entries'' = JArr es \<and>
               findE is_exception_entry es = Inr found \<and>
               (truthy (entry_stacktrace (or_undefined found)) \<longrightarrow>
                  (\<exists>fs ls.
                     js_or (js_prop (entry_stacktrace (or_undefined found)) ''frames'') (JArr [])
                       = JArr fs \<and>
                     mapE render_frame (slice_last5 fs) = Inr ls \<and>
                     v = JStr (join [newline] ls))) \<and>
               (\<not> truthy (entry_stacktrace (or_undefined found)) \<longrightarrow> v = JStr []))) \<and>
         (\<not> truthy (js_get_opt (js_prop issue ''metadata'') ''value'') \<and>
          \<not> truthy (js_prop issue ''culprit'') \<and>
          \<not> truthy (js_get_opt (js_prop issue ''lastEvent'') ''entries'') \<longrightarrow> v = JStr [])"
proof -
  from assms have nn: "\<not> nullish issue"
    by (auto simp: extractStackTrace_def thenE_def js_get_def split: if_splits)
  have md: "js_get issue ''metadata'' = Inr (js_prop issue ''metadata'')"
    using nn by (simp add: js_get_def)
  have mv: "truthy (js_get_opt m ''value'') \<Longrightarrow> js_prop m ''value'' = js_get_opt m ''value''"
    for m
    by (auto simp: js_get_opt_def split: if_splits)
  have en: "truthy (js_get_opt m ''entries'') \<Longrightarrow>
              js_prop m ''entries'' = js_get_opt m ''entries''" for m
    by (auto simp: js_get_opt_def split: if_splits)
  show ?thesis
    using assms md
    by (auto simp: extractStackTrace_def thenE_def mv en render_frames_def
        split: sum.splits if_splits jsval.splits)
qed

lemma transformIssue_stackTrace:
  assumes "transformIssue project issue = Inr t"
  shows "\<exists>v. extractStackTrace issue = Inr v \<and>
             (truthy v \<longrightarrow> i_stackTrace t = v) \<and>
             (\<not> truthy v \<longrightarrow> no_trace_text issue = Inr (i_stackTrace t))"
  using assms
  by (auto simp: transformIssue_def thenE_def split: sum.splits if_splits)

lemma transformIssue_part000_stackTrace:
  "transformIssue_part000 project issue = Inr t \<Longrightarrow>
     i_stackTrace t = js_or (js_get_opt (js_prop issue ''metadata'') ''value'') (JStr [])"
  by (auto simp: transformIssue_part000_def thenE_def split: sum.splits)

text \<open>
  Claim C8, as the code has it. For every raw issue that is transformed, in \<^verbatim>\<open>part_001\<close>
  the \<open>stackTrace\<close> is the first of:
  (a) \<^verbatim>\<open>metadata.value\<close>, when it is truthy;
  (b) \<^verbatim>\<open>"at "\<close> followed by the culprit, when the culprit is truthy;
  (c) when \<^verbatim>\<open>lastEvent.entries\<close> is an array whose first entry of type \<^verbatim>\<open>exception\<close> has, at
      \<^verbatim>\<open>data.values[0].stacktrace.frames\<close>, an array of at least one frame: its last 5 frames,
      each rendered as \<^verbatim>\<open>at {function|anonymous} ({filename}:{lineno}:{colno})\<close>, joined by
      newlines;
  (d) \<^verbatim>\<open>"{title} (no stack trace available)"\<close> with the raw title, otherwise: when there are
      no entries, no exception entry, no stack trace in it, or no frame.
  In \<^verbatim>\<open>part_000\<close> the \<open>stackTrace\<close> is \<^verbatim>\<open>metadata.value\<close> when it is truthy and the empty
  string otherwise.
\<close>

theorem stackTrace_fallback_chain:
  "(transformIssue project issue = Inr t \<longrightarrow>
      (truthy (js_get_opt (js_prop issue ''metadata'') ''value'') \<longrightarrow>
         i_stackTrace t = js_get_opt (js_prop issue ''metadata'') ''value'') \<and>
      (\<not> truthy (js_get_opt (js_prop issue ''metadata'') ''value'') \<and>
       truthy (js_prop issue ''culprit'') \<longrightarrow>
         (\<exists>c. js_toString (js_prop issue ''culprit'') = Inr c \<and>
              i_stackTrace t = JStr (''at '' @ c))) \<and>
      (\<not> truthy (js_get_opt (js_prop issue ''metadata'') ''value'') \<and>
       \<not> truthy (js_prop issue ''culprit'') \<and>
       js_get_opt (js_prop issue ''lastEvent'') ''entries'' = JArr es \<and>
       findE is_exception_entry es = Inr (Some e) \<and>
       js_prop (entry_stacktrace e) ''frames'' = JArr fs \<and> fs \<noteq> [] \<longrightarrow>
         (\<exists>ls. mapE render_frame (slice_last5 fs) = Inr ls \<and>
               i_stackTrace t = JStr (join [newline] ls))) \<and>
      (\<not> truthy (js_get_opt (js_prop issue ''metadata'') ''value'') \<and>
       \<not> truthy (js_prop issue ''culprit'') \<and>
       js_get_opt (js_prop issue ''lastEvent'') ''entries'' = JArr es \<and>
       findE is_exception_entry es = Inr found \<and>
       (\<not> truthy (entry_stacktrace (or_undefined found)) \<or>
        js_or (js_prop (entry_stacktrace (or_undefined found)) ''frames'') (JArr []) = JArr [])
       \<longrightarrow> no_trace_text issue = Inr (i_stackTrace t)) \<and>
      (\<not> truthy (js_get_opt (js_prop issue ''metadata'') ''value'') \<and>
       \<not> truthy (js_prop issue ''culprit'') \<and>
       \<not> truthy (js_get_opt (js_prop issue ''lastEvent'') ''entries'') \<longrightarrow>
         no_trace_text issue = Inr (i_stackTrace t))) \<and>
   (transformIssue_part000 project issue = Inr t' \<longrightarrow>
      i_stackTrace t' = js_or (js_get_opt (js_prop issue ''metadata'') ''value'') (JStr []))"
proof (intro conjI impI)
  assume tr: "transformIssue project issue = Inr t"
  obtain v where v: "extractStackTrace issue = Inr v"
    "truthy v \<longrightarrow> i_stackTrace t = v"
    "\<not> truthy v \<longrightarrow> no_trace_text issue = Inr (i_stackTrace t)"
    using transformIssue_stackTrace[OF tr] by blast
  note ec = extract_cases[OF v(1)]
  {
    assume "truthy (js_get_opt (js_prop issue ''metadata'') ''value'')"
    then show "i_stackTrace t = js_get_opt (js_prop issue ''metadata'') ''value''"
      using ec v(2) by auto
  }
  {
    assume h: "\<not> truthy (js_get_opt (js_prop issue ''metadata'') ''value'') \<and>
       truthy (js_prop issue ''culprit'')"
    with ec obtain c where c: "js_toString (js_prop issue ''culprit'') = Inr c"
      "v = JStr (''at '' @ c)"
      by blast
    then have "truthy v" by simp
    with v(2) c show "\<exists>c. js_toString (js_prop issue ''culprit'') = Inr c \<and>
              i_stackTrace t = JStr (''at '' @ c)"
      by auto
  }
  {
    assume h: "\<not> truthy (js_get_opt (js_prop issue ''metadata'') ''value'') \<and>
       \<not> truthy (js_prop issue ''culprit'') \<and>
       js_get_opt (js_prop issue ''lastEvent'') ''entries'' = JArr es \<and>
       findE is_exception_entry es = Inr (Some e) \<and>
       js_prop (entry_stacktrace e) ''frames'' = JArr fs \<and> fs \<noteq> []"
    then have st: "truthy (entry_stacktrace e)"
      by (cases "entry_stacktrace e") auto
    from ec h st obtain ls where ls: "mapE render_frame (slice_last5 fs) = Inr ls"
      "v = JStr (join [newline] ls)"
      by (auto simp: or_undefined_def js_or_def)
    from h rendered_frames_text[OF ls(1)] ls(2) have "truthy v" by simp
    with v(2) ls show "\<exists>ls. mapE render_frame (slice_last5 fs) = Inr ls \<and>
               i_stackTrace t = JStr (join [newline] ls)"
      by auto
  }
  {
    assume h: "\<not> truthy (js_get_opt (js_prop issue ''metadata'') ''value'') \<and>
       \<not> truthy (js_prop issue ''culprit'') \<and>
       js_get_opt (js_prop issue ''lastEvent'') ''entries'' = JArr es \<and>
       findE is_exception_entry es = Inr found \<and>
       (\<not> truthy (entry_stacktrace (or_undefined found)) \<or>
        js_or (js_prop (entry_stacktrace (or_undefined found)) ''frames'') (JArr []) = JArr [])"
    with ec have "v = JStr []"
      by (auto simp: slice_last5_def)
    with v(3) show "no_trace_text issue = Inr (i_stackTrace t)" by simp
  }
  {
    assume "\<not> truthy (js_get_opt (js_prop issue ''metadata'') ''value'') \<and>
       \<not> truthy (js_prop issue ''culprit'') \<and>
       \<not> truthy (js_get_opt (js_prop issue ''lastEvent'') ''entries'')"
    then show "no_trace_text issue = Inr (i_stackTrace t)"
      using ec v(3) by auto
  }
next
  assume "transformIssue_part000 project issue = Inr t'"
  then show "i_stackTrace t' = js_or (js_get_opt (js_prop issue ''metadata'') ''value'') (JStr [])"
    by (rule transformIssue_part000_stackTrace)
qed

text \<open>
  The theorem at one issue for each branch: a metadata value; a culprit; six frames (the last
  five are kept, the sixth has no function name); an exception entry with no frame; no last
  event; and, for \<^verbatim>\<open>part_000\<close>, an issue with a culprit and no metadata value.
\<close>

theorem stackTrace_fallback_chain_witness:
  "(\<exists>t. transformIssue ''web'' info_issue = Inr t \<and> i_stackTrace t = JStr ''x is not defined'') \<and>
   (\<exists>t. transformIssue ''web'' fatal_issue = Inr t \<and> i_stackTrace t = JStr ''at app/main'') \<and>
   (\<exists>t. transformIssue ''web'' (framed_issue six_frames) = Inr t \<and>
        i_stackTrace t =
          JStr (join [newline]
                  [''at b (app.js:2:7)'', ''at c (app.js:3:7)'', ''at d (app.js:4:7)'',
                   ''at e (app.js:5:7)'', ''at anonymous (app.js:6:7)''])) \<and>
   (\<exists>t. transformIssue ''web'' (framed_issue []) = Inr t \<and>
        i_stackTrace t = JStr ''Crash (no stack trace available)'') \<and>
   (\<exists>t. transformIssue ''web'' bare_issue = Inr t \<and>
        i_stackTrace t = JStr ''Crash (no stack trace available)'') \<and>
   (\<exists>t. transformIssue_part000 ''web'' fatal_issue = Inr t \<and> i_stackTrace t = JStr [])"
proof -
  obtain t1 where t1: "transformIssue ''web'' info_issue = Inr t1"
    using stack_of_info_issue by blast
  have "truthy (js_get_opt (js_prop info_issue ''metadata'') ''value'')"
    "js_get_opt (js_prop info_issue ''metadata'') ''value'' = JStr ''x is not defined''"
    by (simp_all add: info_issue_def js_get_opt_def nullish_def)
  with t1 have w1: "i_stackTrace t1 = JStr ''x is not defined''"
    using stackTrace_fallback_chain[of "''web''" info_issue t1] by simp
  obtain t2 where t2: "transformIssue ''web'' fatal_issue = Inr t2"
    using stack_of_fatal_issue by blast
  have "\<not> truthy (js_get_opt (js_prop fatal_issue ''metadata'') ''value'')"
    "truthy (js_prop fatal_issue ''culprit'')"
    "js_toString (js_prop fatal_issue ''culprit'') = Inr ''app/main''"
    by (simp_all add: fatal_issue_def js_get_opt_def nullish_def)
  with t2 have w2: "i_stackTrace t2 = JStr ''at app/main''"
    using stackTrace_fallback_chain[of "''web''" fatal_issue t2] by auto
  obtain t3 where t3: "transformIssue ''web'' (framed_issue six_frames) = Inr t3"
    using stack_of_framed_issue by blast
  have ne: "six_frames \<noteq> []" by (simp add: six_frames_def)
  have "\<exists>ls. mapE render_frame (slice_last5 six_frames) = Inr ls \<and>
             i_stackTrace t3 = JStr (join [newline] ls)"
    using stackTrace_fallback_chain[of "''web''" "framed_issue six_frames" t3
        "[message_entry, exception_entry six_frames]" "exception_entry six_frames" six_frames
        "Some (exception_entry six_frames)" t3]
      t3 ne framed_issue_facts[of six_frames] framed_issue_entry[of six_frames]
      framed_issue_frames[of six_frames]
    by blast
  then have w3: "i_stackTrace t3 =
          JStr (join [newline]
                  [''at b (app.js:2:7)'', ''at c (app.js:3:7)'', ''at d (app.js:4:7)'',
                   ''at e (app.js:5:7)'', ''at anonymous (app.js:6:7)''])"
    using six_frames_rendered by auto
  obtain t4 where t4: "transformIssue ''web'' (framed_issue []) = Inr t4"
    using stack_of_unframed_issue by blast
  have "js_or (js_prop (entry_stacktrace (or_undefined (Some (exception_entry []))))
           ''frames'') (JArr []) = JArr []"
    by (simp add: or_undefined_def framed_issue_frames js_or_def)
  then have "no_trace_text (framed_issue []) = Inr (i_stackTrace t4)"
    using stackTrace_fallback_chain[of "''web''" "framed_issue []" t4
        "[message_entry, exception_entry []]" "exception_entry []" "[]"
        "Some (exception_entry [])" t4]
      t4 framed_issue_facts[of "[]"] framed_issue_entry[of "[]"]
    by blast
  then have w4: "i_stackTrace t4 = JStr ''Crash (no stack trace available)''"
    using no_trace_text_crash(1) by simp
  obtain t5 where t5: "transformIssue ''web'' bare_issue = Inr t5"
    using stack_of_bare_issue by blast
  have "\<not> truthy (js_get_opt (js_prop bare_issue ''metadata'') ''value'')"
    "\<not> truthy (js_prop bare_issue ''culprit'')"
    "\<not> truthy (js_get_opt (js_prop bare_issue ''lastEvent'') ''entries'')"
    by (simp_all add: bare_issue_def js_get_opt_def nullish_def)
  with t5 have "no_trace_text bare_issue = Inr (i_stackTrace t5)"
    using stackTrace_fallback_chain[of "''web''" bare_issue t5] by blast
  then have w5: "i_stackTrace t5 = JStr ''Crash (no stack trace available)''"
    using no_trace_text_crash(2) by simp
  obtain t6 where t6: "transformIssue_part000 ''web'' fatal_issue = Inr t6"
    using stack_of_fatal_issue_part000 by blast
  have "js_or (js_get_opt (js_prop fatal_issue ''metadata'') ''value'') (JStr []) = JStr []"
    by (simp add: fatal_issue_def js_get_opt_def nullish_def js_or_def)
  with t6 have w6: "i_stackTrace t6 = JStr []"
    using stackTrace_fallback_chain[of "''web''" fatal_issue t6 "[]" JNull "[]" None t6] by simp
  from t1 w1 t2 w2 t3 w3 t4 w4 t5 w5 t6 w6 show ?thesis by blast
qed

text \<open>
  Claim C8 as stated fails on both versions. In \<^verbatim>\<open>part_001\<close> an issue whose last event has
  an exception entry with a stack trace of no frames gets the title text, not the joined
  frames (the empty string), and a metadata value that is there but empty is passed over for
  the culprit. In \<^verbatim>\<open>part_000\<close> an issue with a culprit and no metadata value gets the empty
  string, not \<^verbatim>\<open>"at "\<close> and the culprit.
\<close>

theorem stackTrace_fallback_chain_counterexample:
  "(\<exists>t. transformIssue ''web'' (framed_issue []) = Inr t \<and>
        js_get_opt (js_prop (framed_issue []) ''lastEvent'') ''entries'' =
          JArr [message_entry, exception_entry []] \<and>
        i_stackTrace t = JStr ''Crash (no stack trace available)'' \<and>
        i_stackTrace t \<noteq> JStr (join [newline] [])) \<and>
   (\<exists>t. transformIssue ''web'' empty_value_issue = Inr t \<and>
        js_get_opt (js_prop empty_value_issue ''metadata'') ''value'' = JStr [] \<and>
        i_stackTrace t = JStr ''at app/main'' \<and>
        i_stackTrace t \<noteq> JStr []) \<and>
   (\<exists>t. transformIssue_part000 ''web'' fatal_issue = Inr t \<and>
        js_prop fatal_issue ''culprit'' = JStr ''app/main'' \<and>
        i_stackTrace t = JStr [] \<and>
        i_stackTrace t \<noteq> JStr ''at app/main'')"
  using stack_of_unframed_issue stack_of_fatal_issue_part000 stack_of_empty_value_issue
    framed_issue_facts(3)[of "[]"]
  by (simp add: transformed_def fatal_issue_def empty_value_issue_def js_get_opt_def nullish_def)

section \<open>Properties of the summary\<close>

lemma count_by_severity:
  "\<forall>t \<in> set ts. i_severity t \<noteq> Resolved \<Longrightarrow>
     length (filter (\<lambda>i. i_severity i = Critical) ts) +
     length (filter (\<lambda>i. i_severity i = Warning) ts) = length ts"
proof (induction ts)
  case Nil
  then show ?case by simp
next
  case (Cons t ts)
  then show ?case by (cases "i_severity t") auto
qed

lemma summarize_counts:
  assumes "summarize ts = Inr s" and "\<forall>t \<in> set ts. i_severity t \<noteq> Resolved"
  shows "s_critical s + s_warning s = length ts \<and> s_resolved s = 0"
  using assms count_by_severity[of ts]
  by (auto simp: summarize_def thenE_def split: sum.splits)

lemma sentry_body_counts:
  assumes "sentry_body tr h project options body = Inr r"
    and "\<And>x t. tr project x = Inr t \<Longrightarrow> i_severity t \<noteq> Resolved"
  shows "s_critical (sr_summary r) + s_warning (sr_summary r) = length (sr_issues r) \<and>
         s_resolved (sr_summary r) = 0"
proof -
  from assms(1) obtain xs ts where
    m: "mapE (tr project) xs = Inr ts" and s: "summarize ts = Inr (sr_summary r)"
    and i: "sr_issues r = ts"
    by (auto simp: sentry_body_def thenE_def split: jsval.splits sum.splits)
  from m assms(2) have "\<forall>t \<in> set ts. i_severity t \<noteq> Resolved"
    using mapE_Inr_set[of "tr project" xs ts] by blast
  with s i show ?thesis using summarize_counts by blast
qed

lemma sentry_with_counts:
  assumes "fst (fetchSentryIssues_with tr mock h options log) = Inr r"
    and "\<And>p x t. tr p x = Inr t \<Longrightarrow> i_severity t \<noteq> Resolved"
    and "s_critical (sr_summary (mock (h_clock h))) + s_warning (sr_summary (mock (h_clock h)))
           = length (sr_issues (mock (h_clock h))) \<and> s_resolved (sr_summary (mock (h_clock h))) = 0"
  shows "s_critical (sr_summary r) + s_warning (sr_summary r) = length (sr_issues r) \<and>
         s_resolved (sr_summary r) = 0"
proof (cases "r = mock (h_clock h)")
  case True
  with assms(3) show ?thesis by simp
next
  case False
  with assms(1) obtain c resp where
    "sentry_body tr h c options resp = Inr r"
    by (auto simp: fetchSentryIssues_with_def sentry_try_def do_fetch_def thenE_def Let_def
        split: if_splits sum.splits prod.splits)
  then show ?thesis using sentry_body_counts[of tr h c options resp r] assms(2) by blast
qed

text \<open>
  In every result of \<open>fetchSentryIssues\<close>, of either version, \<open>critical + warning\<close> is the
  number of issues and \<open>resolved\<close> is 0.
\<close>

lemma summary_counts_add_up:
  "(fst (fetchSentryIssues h options log) = Inr r \<longrightarrow>
      s_critical (sr_summary r) + s_warning (sr_summary r) = length (sr_issues r) \<and>
      s_resolved (sr_summary r) = 0) \<and>
   (fst (fetchSentryIssues_part000 h options log) = Inr r' \<longrightarrow>
      s_critical (sr_summary r') + s_warning (sr_summary r') = length (sr_issues r') \<and>
      s_resolved (sr_summary r') = 0)"
proof -
  have a: "tr p x = Inr t \<Longrightarrow> i_severity t \<noteq> Resolved"
    if "tr = transformIssue \<or> tr = transformIssue_part000" for tr p x t
    using that transformIssue_severity[of p x t] transformIssue_part000_severity[of p x t]
    by (auto simp: classify_def split: if_splits)
  show ?thesis
    using sentry_with_counts[of transformIssue getMockSentryData h options log r]
      sentry_with_counts[of transformIssue_part000 getMockSentryData_part000 h options log r']
      a[of transformIssue] a[of transformIssue_part000]
    by (simp add: fetchSentryIssues_def fetchSentryIssues_part000_def getMockSentryData_def
        getMockSentryData_part000_def)
qed

lemma js_add_numbers: "js_add (JNum a) (JNum b) = Inr (JNum (a + b))"
  by (simp add: js_add_def js_toPrimitive_def thenE_def)

lemma reduce_numbers:
  "reduceE (\<lambda>sum i. js_add sum (JNum (c i))) (JNum a) ts = Inr (JNum (a + sum_list (map c ts)))"
  by (induction ts arbitrary: a) (simp_all add: js_add_numbers)

text \<open>When every count is a number, \<open>totalEvents\<close> is their sum.\<close>

lemma summarize_numeric_total:
  assumes "\<forall>t \<in> set ts. i_count t = JNum (c t)"
  shows "\<exists>s. summarize ts = Inr s \<and> s_totalEvents s = JNum (sum_list (map c ts))"
proof -
  have "reduceE (\<lambda>sum i. js_add sum (i_count i)) (JNum a) ts =
        reduceE (\<lambda>sum i. js_add sum (JNum (c i))) (JNum a) ts" for a
    using assms by (induction ts arbitrary: a) (auto simp: js_add_numbers)
  then show ?thesis
    by (simp add: summarize_def thenE_def reduce_numbers)
qed

text \<open>
  Claim C5 at the payload the error-tracking service sends, where \<^verbatim>\<open>count\<close> is a string:
  the counts \<^verbatim>\<open>"3"\<close> and \<^verbatim>\<open>"4"\<close> give \<open>totalEvents = "034"\<close>, not 7, in both versions of the
  file (\<^verbatim>\<open>0 + "3"\<close> is \<^verbatim>\<open>"03"\<close> in JavaScript).
\<close>

theorem totalEvents_of_string_counts:
  "(\<exists>r. fst (fetchSentryIssues (sentry_host string_count_issues) default_sentry_options [])
          = Inr r \<and>
        map i_count (sr_issues r) = [JStr ''3'', JStr ''4''] \<and>
        s_totalEvents (sr_summary r) = JStr ''034'' \<and>
        s_totalEvents (sr_summary r) \<noteq> JNum 7) \<and>
   (\<exists>r. fst (fetchSentryIssues_part000 (sentry_host string_count_issues)
               default_sentry_options []) = Inr r \<and>
        map i_count (sr_issues r) = [JStr ''3'', JStr ''4''] \<and>
        s_totalEvents (sr_summary r) = JStr ''034'' \<and>
        s_totalEvents (sr_summary r) \<noteq> JNum 7)"
proof -
  have a: "fst (fetchSentryIssues (sentry_host string_count_issues) default_sentry_options []) =
     Inr \<lparr>sr_issues =
         [\<lparr>i_id = JStr ''1'', i_title = JStr ''TypeError: x is undefined'',
             i_severity = Critical, i_count = JStr ''3'',
             i_lastSeen = JStr ''2024-01-01T00:00:00Z'',
             i_project = ''web'', i_affectedUsers = JNum 2,
             i_stackTrace = JStr ''at app/main''\<rparr>,
          \<lparr>i_id = JStr ''2'', i_title = JStr ''Slow request'',
             i_severity = Warning, i_count = JStr ''4'',
             i_lastSeen = JStr ''2024-01-02T00:00:00Z'',
             i_project = ''web'', i_affectedUsers = JNum 1,
             i_stackTrace = JStr ''at app/api''\<rparr>],
         sr_summary =
           \<lparr>s_critical = 1, s_warning = 1, s_resolved = 0,
              s_totalEvents = JStr ''034''\<rparr>,
         sr_timestamp = ''2024-01-01T00:00:00.000Z''\<rparr>"
    by code_simp
  have b: "fst (fetchSentryIssues_part000 (sentry_host string_count_issues)
                  default_sentry_options []) =
     Inr \<lparr>sr_issues =
         [\<lparr>i_id = JStr ''1'', i_title = JStr ''TypeError: x is undefined'',
             i_severity = Critical, i_count = JStr ''3'',
             i_lastSeen = JStr ''2024-01-01T00:00:00Z'',
             i_project = ''web'', i_affectedUsers = JNum 2,
             i_stackTrace = JStr []\<rparr>,
          \<lparr>i_id = JStr ''2'', i_title = JStr ''Slow request'',
             i_severity = Warning, i_count = JStr ''4'',
             i_lastSeen = JStr ''2024-01-02T00:00:00Z'',
             i_project = ''web'', i_affectedUsers = JNum 1,
             i_stackTrace = JStr []\<rparr>],
         sr_summary =
           \<lparr>s_critical = 1, s_warning = 1, s_resolved = 0,
              s_totalEvents = JStr ''034''\<rparr>,
         sr_timestamp = ''2024-01-01T00:00:00.000Z''\<rparr>"
    by code_simp
  show ?thesis unfolding a b by simp
qed

section \<open>Properties of the read operations\<close>

text \<open>
  FallbackPolicy: when the request is rejected, when the status is not ok, and when the body
  cannot be parsed, a read operation with its credentials set returns the mock.
\<close>

lemma vercel_falls_back:
  assumes "\<not> falsy_str (VERCEL_TOKEN (h_env h))"
    and "h_fetch h log \<lparr>req_url = vercel_list_url (VERCEL_TEAM_ID (h_env h)) vo,
            req_method = ''GET'',
            req_headers = [(''Authorization'', ''Bearer '' @ tpl_str (VERCEL_TOKEN (h_env h)))]\<rparr>
         = out"
    and "(\<exists>e. out = Inl e) \<or> (\<exists>resp. out = Inr resp \<and> \<not> resp_ok resp) \<or>
         (\<exists>resp e. out = Inr resp \<and> resp_json resp = Inl e)"
  shows "fst (fetchVercelDeployments h vo log) = Inr (getMockVercelDeployments (h_clock h) vo)"
  using assms
  by (auto simp: fetchVercelDeployments_def vercel_try_def do_fetch_def thenE_def Let_def
      split: sum.splits)

lemma sentry_falls_back:
  assumes "\<not> falsy_str (SENTRY_AUTH_TOKEN (h_env h))" and "\<not> falsy_str (SENTRY_ORG (h_env h))"
    and "\<not> falsy_str (SENTRY_PROJECT_SLUG (h_env h))" and "so_projectId so = None"
    and "h_fetch h log
           \<lparr>req_url = ''https://sentry.io/api/0/projects/'' @ tpl_str (SENTRY_ORG (h_env h))
                        @ ''/'' @ tpl_str (SENTRY_PROJECT_SLUG (h_env h))
                        @ ''/issues/?statsPeriod=14d&query=is:unresolved'',
            req_method = ''GET'',
            req_headers = [(''Authorization'',
                            ''Bearer '' @ tpl_str (SENTRY_AUTH_TOKEN (h_env h)))]\<rparr>
         = out"
    and "(\<exists>e. out = Inl e) \<or> (\<exists>resp. out = Inr resp \<and> \<not> resp_ok resp) \<or>
         (\<exists>resp e. out = Inr resp \<and> resp_json resp = Inl e) \<or>
         (\<exists>resp body. out = Inr resp \<and> resp_json resp = Inr body \<and> (\<forall>xs. body \<noteq> JArr xs))"
  shows "fst (fetchSentryIssues h so log) = Inr (getMockSentryData (h_clock h)) \<and>
         fst (fetchSentryIssues_part000 h so log) = Inr (getMockSentryData_part000 (h_clock h))"
proof -
  have body: "\<forall>xs. body \<noteq> JArr xs \<Longrightarrow>
      sentry_body tr h p so body = Inl (JsError ''Invalid Sentry API response'')" for body tr p
    by (cases body) (simp_all add: sentry_body_def)
  have "fst (fetchSentryIssues_with tr mock h so log) = Inr (mock (h_clock h))" for tr mock
    using assms
    by (auto simp: fetchSentryIssues_with_def sentry_try_def do_fetch_def thenE_def Let_def
        falsy_str_def body split: sum.splits)
  then show ?thesis
    by (simp add: fetchSentryIssues_def fetchSentryIssues_part000_def)
qed


text \<open>
  Claim C9, as the code has it. When the auth token, the organization, or the project
  identifier (the \<^verbatim>\<open>projectId\<close> option and \<^verbatim>\<open>SENTRY_PROJECT_SLUG\<close> both) is absent or empty,
  \<open>fetchSentryIssues\<close> makes no network call (the log is returned as it was and the result
  does not depend on the network) and returns the mock data of its file. In \<^verbatim>\<open>part_001\<close>
  the mock summary has \<open>critical = 1\<close> and \<open>warning = 0\<close>; in \<^verbatim>\<open>part_000\<close> it has
  \<open>critical = 0\<close> and \<open>warning = 1\<close>.
\<close>

theorem sentry_without_credentials:
  assumes "falsy_str (SENTRY_AUTH_TOKEN (h_env h)) \<or> falsy_str (SENTRY_ORG (h_env h)) \<or>
           (falsy_str (so_projectId options) \<and> falsy_str (SENTRY_PROJECT_SLUG (h_env h)))"
  shows "fetchSentryIssues h options log = (Inr (getMockSentryData (h_clock h)), log) \<and>
         fetchSentryIssues (h\<lparr>h_fetch := f\<rparr>) options log = fetchSentryIssues h options log \<and>
         s_critical (sr_summary (getMockSentryData (h_clock h))) = 1 \<and>
         s_warning (sr_summary (getMockSentryData (h_clock h))) = 0 \<and>
         fetchSentryIssues_part000 h options log =
           (Inr (getMockSentryData_part000 (h_clock h)), log) \<and>
         fetchSentryIssues_part000 (h\<lparr>h_fetch := f\<rparr>) options log =
           fetchSentryIssues_part000 h options log \<and>
         s_critical (sr_summary (getMockSentryData_part000 (h_clock h))) = 0 \<and>
         s_warning (sr_summary (getMockSentryData_part000 (h_clock h))) = 1"
  using assms
  by (auto simp: fetchSentryIssues_def fetchSentryIssues_part000_def fetchSentryIssues_with_def
      getMockSentryData_def getMockSentryData_part000_def Let_def)

lemma unconfigured_has_no_sentry_token:
  "falsy_str (SENTRY_AUTH_TOKEN (h_env host_unconfigured))"
  by (simp add: host_unconfigured_def no_env_def falsy_str_def)

theorem sentry_without_credentials_witness:
  "fetchSentryIssues host_unconfigured default_sentry_options [] =
     (Inr (getMockSentryData example_clock), []) \<and>
   s_critical (sr_summary (getMockSentryData example_clock)) = 1 \<and>
   s_warning (sr_summary (getMockSentryData example_clock)) = 0 \<and>
   fetchSentryIssues_part000 host_unconfigured default_sentry_options [] =
     (Inr (getMockSentryData_part000 example_clock), []) \<and>
   s_critical (sr_summary (getMockSentryData_part000 example_clock)) = 0 \<and>
   s_warning (sr_summary (getMockSentryData_part000 example_clock)) = 1"
proof -
  have clock: "h_clock host_unconfigured = example_clock"
    by (simp add: host_unconfigured_def)
  show ?thesis
    using sentry_without_credentials[of host_unconfigured default_sentry_options "[]"
        "h_fetch host_unconfigured"]
      unconfigured_has_no_sentry_token
    unfolding clock by blast
qed

text \<open>
  Claim C9 as stated gives the mock summary \<open>warning = 1\<close> and \<open>critical = 0\<close>; the
  \<open>fetchSentryIssues\<close> of \<^verbatim>\<open>part_001\<close> returns, with no credentials, a summary that is not so.
\<close>

theorem sentry_without_credentials_counterexample:
  "\<exists>r. fetchSentryIssues host_unconfigured default_sentry_options [] = (Inr r, []) \<and>
       \<not> (s_warning (sr_summary r) = 1 \<and> s_critical (sr_summary r) = 0)"
  by (simp add: fetchSentryIssues_def fetchSentryIssues_with_def host_unconfigured_def no_env_def
      falsy_str_def getMockSentryData_def default_sentry_options_def)

section \<open>Properties of the rollback\<close>

lemma promote_Inr:
  "promote h token options t log = (Inr r, log') \<Longrightarrow>
     rb_success r \<and> rb_status r = Some ''completed'' \<and> rb_progress r = Some 100"
  by (auto simp: promote_def do_fetch_def thenE_def split: sum.splits if_splits)

lemma rollback_try_Inr:
  "rollback_try h token options log = (Inr r, log') \<Longrightarrow>
     rb_success r \<and> rb_status r = Some ''completed'' \<and> rb_progress r = Some 100"
  by (auto simp: rollback_try_def split: prod.splits sum.splits option.splits dest: promote_Inr)

text \<open>\<open>executeVercelRollback\<close> returns an object on every path, and a terminal one.\<close>

lemma executeVercelRollback_total:
  "\<exists>r log'. executeVercelRollback h options log = (Inr r, log') \<and>
     (rb_success r \<longrightarrow> rb_status r = Some ''completed'' \<and> rb_progress r = Some 100) \<and>
     (\<not> rb_success r \<longrightarrow> rb_status r = Some ''failed'' \<and> rb_progress r = Some 0)"
proof (cases "falsy_str (VERCEL_TOKEN (h_env h))")
  case True
  then show ?thesis by (simp add: executeVercelRollback_def getMockRollbackResult_def)
next
  case False
  obtain res log' where
    rt: "rollback_try h (tpl_str (VERCEL_TOKEN (h_env h))) options log = (res, log')"
    by (cases "rollback_try h (tpl_str (VERCEL_TOKEN (h_env h))) options log")
  show ?thesis
  proof (cases res)
    case (Inl e)
    with False rt show ?thesis by (simp add: executeVercelRollback_def)
  next
    case (Inr r)
    with False rt rollback_try_Inr[of h _ options log r log'] show ?thesis
      by (simp add: executeVercelRollback_def)
  qed
qed

text \<open>
  Claim C1. For every host (every outcome of the underlying calls), every input and every
  log: \<open>executeVercelRollback\<close> returns an object, and in it \<open>success = true\<close> comes with
  \<open>status = "completed"\<close> and \<open>progress = 100\<close>, and \<open>success = false\<close> with
  \<open>status = "failed"\<close> and \<open>progress = 0\<close>. The same holds for what
  \<open>executeVercelRollbackAction\<close> returns: its own \<^verbatim>\<open>catch\<close> branch, whose object has neither
  status nor progress, is never taken.
\<close>

theorem rollback_result_invariant:
  "(\<exists>r. fst (executeVercelRollback h options log) = Inr r \<and>
        (rb_success r \<longrightarrow> rb_status r = Some ''completed'' \<and> rb_progress r = Some 100) \<and>
        (\<not> rb_success r \<longrightarrow> rb_status r = Some ''failed'' \<and> rb_progress r = Some 0)) \<and>
   (rb_success (fst (executeVercelRollbackAction h input log)) \<longrightarrow>
      rb_status (fst (executeVercelRollbackAction h input log)) = Some ''completed'' \<and>
      rb_progress (fst (executeVercelRollbackAction h input log)) = Some 100) \<and>
   (\<not> rb_success (fst (executeVercelRollbackAction h input log)) \<longrightarrow>
      rb_status (fst (executeVercelRollbackAction h input log)) = Some ''failed'' \<and>
      rb_progress (fst (executeVercelRollbackAction h input log)) = Some 0)"
proof -
  obtain r log' where r: "executeVercelRollback h options log = (Inr r, log')"
    "rb_success r \<longrightarrow> rb_status r = Some ''completed'' \<and> rb_progress r = Some 100"
    "\<not> rb_success r \<longrightarrow> rb_status r = Some ''failed'' \<and> rb_progress r = Some 0"
    using executeVercelRollback_total[of h options log] by blast
  obtain q log'' where q: "executeVercelRollback h (as_options input) log = (Inr q, log'')"
    "rb_success q \<longrightarrow> rb_status q = Some ''completed'' \<and> rb_progress q = Some 100"
    "\<not> rb_success q \<longrightarrow> rb_status q = Some ''failed'' \<and> rb_progress q = Some 0"
    using executeVercelRollback_total[of h "as_options input" log] by blast
  have "fst (executeVercelRollbackAction h input log) = q"
    using q(1) by (simp add: executeVercelRollbackAction_def)
  with r q show ?thesis by auto
qed

lemma action_unconfigured_succeeds:
  "rb_success (fst (executeVercelRollbackAction host_unconfigured example_action_input []))"
  by code_simp

lemma action_offline_fails:
  "\<not> rb_success (fst (executeVercelRollbackAction host_offline example_action_input []))"
  by code_simp

text \<open>
  The theorem at a run that succeeds (no token: the simulated rollback) and at a run that
  fails (token set, every request rejected).
\<close>

theorem rollback_result_invariant_witness:
  "rb_success (fst (executeVercelRollbackAction host_unconfigured example_action_input [])) \<and>
   rb_status (fst (executeVercelRollbackAction host_unconfigured example_action_input []))
     = Some ''completed'' \<and>
   rb_progress (fst (executeVercelRollbackAction host_unconfigured example_action_input []))
     = Some 100 \<and>
   \<not> rb_success (fst (executeVercelRollbackAction host_offline example_action_input [])) \<and>
   rb_status (fst (executeVercelRollbackAction host_offline example_action_input []))
     = Some ''failed'' \<and>
   rb_progress (fst (executeVercelRollbackAction host_offline example_action_input []))
     = Some 0"
  using rollback_result_invariant[of host_unconfigured example_rollback "[]" example_action_input]
    rollback_result_invariant[of host_offline example_rollback "[]" example_action_input]
    action_unconfigured_succeeds action_offline_fails
  by blast

text \<open>
  Claim C10. When \<^verbatim>\<open>VERCEL_TOKEN\<close> is absent (or empty) \<open>executeVercelRollback\<close> makes no
  network call: the log of requests is returned as it was, and the result does not depend on
  what the network would answer. It nevertheless returns \<open>success = true\<close>,
  \<open>status = "completed"\<close>, \<open>progress = 100\<close> and
  \<open>previousDeploymentId = "dpl_mock_previous"\<close>.
\<close>

theorem rollback_without_token:
  assumes "falsy_str (VERCEL_TOKEN (h_env h))"
  shows "\<exists>r. executeVercelRollback h options log = (Inr r, log) \<and>
             rb_success r \<and> rb_status r = Some ''completed'' \<and> rb_progress r = Some 100 \<and>
             rb_previousDeploymentId r = Some (JStr ''dpl_mock_previous'') \<and>
             executeVercelRollback (h\<lparr>h_fetch := f\<rparr>) options log = (Inr r, log)"
  using assms by (simp add: executeVercelRollback_def getMockRollbackResult_def)

lemma unconfigured_has_no_token: "falsy_str (VERCEL_TOKEN (h_env host_unconfigured))"
  by (simp add: host_unconfigured_def no_env_def falsy_str_def)

theorem rollback_without_token_witness:
  "\<exists>r. executeVercelRollback host_unconfigured example_rollback [] = (Inr r, []) \<and>
       rb_success r \<and> rb_status r = Some ''completed'' \<and> rb_progress r = Some 100 \<and>
       rb_previousDeploymentId r = Some (JStr ''dpl_mock_previous'') \<and>
       executeVercelRollback (host_unconfigured\<lparr>h_fetch := \<lambda>log req. Inr (ok_response JNull)\<rparr>)
         example_rollback [] = (Inr r, [])"
  using rollback_without_token[OF unconfigured_has_no_token, of example_rollback "[]"
      "\<lambda>log req. Inr (ok_response JNull)"]
  by simp

lemma find_first:
  "(\<forall>d \<in> set before. \<not> P d) \<Longrightarrow> P t \<Longrightarrow> find P (before @ t # after) = Some t"
  by (induction before) auto

lemma find_filter_single: "filter P xs = [t] \<Longrightarrow> find P xs = Some t"
  by (induction xs) (auto split: if_splits simp: find_None_iff filter_empty_conv)

lemma find_filter_none: "filter P xs = [] \<Longrightarrow> find P xs = None"
  by (simp add: find_None_iff filter_empty_conv)

lemma includes_no_suitable:
  "str_includes ''Rollback failed: No suitable deployment found for rollback''
     ''No suitable deployment found for rollback''"
  by code_simp

lemma rollback_promoted:
  assumes "\<not> falsy_str (VERCEL_TOKEN (h_env h))"
    and "fetchVercelDeployments h
           \<lparr>vo_projectName = ro_projectName options, vo_limit = Some 10\<rparr> log = (Inr dd, log1)"
    and "find (eligible (ro_deploymentId options)) (deployments dd) = Some t"
    and "js_toString (d_id t) = Inr tid"
    and "h_fetch h log1
           (promote_request (VERCEL_TEAM_ID (h_env h)) (tpl_str (VERCEL_TOKEN (h_env h))) tid)
         = Inr resp"
    and "resp_ok resp"
  shows "\<exists>r. executeVercelRollback h options log =
               (Inr r, log1 @ [promote_request (VERCEL_TEAM_ID (h_env h))
                                  (tpl_str (VERCEL_TOKEN (h_env h))) tid]) \<and>
             rb_success r \<and> rb_previousDeploymentId r = Some (d_id t) \<and>
             rb_status r = Some ''completed'' \<and> rb_progress r = Some 100"
  using assms
  by (simp add: executeVercelRollback_def rollback_try_def promote_def do_fetch_def thenE_def)

lemma rollback_no_target:
  assumes "\<not> falsy_str (VERCEL_TOKEN (h_env h))"
    and "fetchVercelDeployments h
           \<lparr>vo_projectName = ro_projectName options, vo_limit = Some 10\<rparr> log = (Inr dd, log1)"
    and "find (eligible (ro_deploymentId options)) (deployments dd) = None"
  shows "\<exists>r. executeVercelRollback h options log = (Inr r, log1) \<and>
             \<not> rb_success r \<and> rb_status r = Some ''failed'' \<and> rb_progress r = Some 0 \<and>
             str_includes (rb_message r) ''No suitable deployment found for rollback''"
  using assms includes_no_suitable
  by (simp add: executeVercelRollback_def rollback_try_def error_message_def)

text \<open>
  Claim C3. Let the deployment token be set and let \<open>dd\<close> be the list
  \<open>fetchVercelDeployments\<close> returns to \<open>executeVercelRollback\<close> (\<open>log1\<close> the log after it).
  A deployment is eligible when its id differs from the input \<open>deploymentId\<close> and its
  status is \<^verbatim>\<open>"READY"\<close>.
  (1) The target is the first eligible deployment in list order: if \<open>t\<close> is eligible and
  nothing before it is, and the promote request for \<open>t\<close> is answered with an ok response,
  the rollback makes exactly that request and returns \<open>success = true\<close> with
  \<open>previousDeploymentId\<close> the id of \<open>t\<close>.
  (2) In particular, when \<open>t\<close> is the one eligible deployment and its promotion succeeds,
  the result has \<open>success = true\<close> and \<open>previousDeploymentId\<close> the id of \<open>t\<close>.
  (3) When no deployment is eligible, no further request is made and the result has
  \<open>success = false\<close>, \<open>status = "failed"\<close>, \<open>progress = 0\<close> and a message that contains
  \<^verbatim>\<open>No suitable deployment found for rollback\<close>.
\<close>

theorem rollback_target_selection:
  assumes "\<not> falsy_str (VERCEL_TOKEN (h_env h))"
    and "fetchVercelDeployments h
           \<lparr>vo_projectName = ro_projectName options, vo_limit = Some 10\<rparr> log = (Inr dd, log1)"
  shows
   "(deployments dd = before @ t # after \<and>
     (\<forall>d \<in> set before. \<not> eligible (ro_deploymentId options) d) \<and>
     eligible (ro_deploymentId options) t \<and>
     js_toString (d_id t) = Inr tid \<and>
     h_fetch h log1
       (promote_request (VERCEL_TEAM_ID (h_env h)) (tpl_str (VERCEL_TOKEN (h_env h))) tid)
       = Inr resp \<and>
     resp_ok resp
     \<longrightarrow> (\<exists>r. executeVercelRollback h options log =
               (Inr r, log1 @ [promote_request (VERCEL_TEAM_ID (h_env h))
                                  (tpl_str (VERCEL_TOKEN (h_env h))) tid]) \<and>
             rb_success r \<and> rb_previousDeploymentId r = Some (d_id t) \<and>
             rb_status r = Some ''completed'' \<and> rb_progress r = Some 100)) \<and>
    (filter (eligible (ro_deploymentId options)) (deployments dd) = [t] \<and>
     js_toString (d_id t) = Inr tid \<and>
     h_fetch h log1
       (promote_request (VERCEL_TEAM_ID (h_env h)) (tpl_str (VERCEL_TOKEN (h_env h))) tid)
       = Inr resp \<and>
     resp_ok resp
     \<longrightarrow> (\<exists>r. fst (executeVercelRollback h options log) = Inr r \<and>
             rb_success r \<and> rb_previousDeploymentId r = Some (d_id t))) \<and>
    (filter (eligible (ro_deploymentId options)) (deployments dd) = []
     \<longrightarrow> (\<exists>r. executeVercelRollback h options log = (Inr r, log1) \<and>
             \<not> rb_success r \<and> rb_status r = Some ''failed'' \<and> rb_progress r = Some 0 \<and>
             str_includes (rb_message r) ''No suitable deployment found for rollback''))"
proof (intro conjI impI)
  assume a: "deployments dd = before @ t # after \<and>
     (\<forall>d \<in> set before. \<not> eligible (ro_deploymentId options) d) \<and>
     eligible (ro_deploymentId options) t \<and>
     js_toString (d_id t) = Inr tid \<and>
     h_fetch h log1
       (promote_request (VERCEL_TEAM_ID (h_env h)) (tpl_str (VERCEL_TOKEN (h_env h))) tid)
       = Inr resp \<and>
     resp_ok resp"
  then have "find (eligible (ro_deploymentId options)) (deployments dd) = Some t"
    by (simp add: find_first)
  with a assms show "\<exists>r. executeVercelRollback h options log =
               (Inr r, log1 @ [promote_request (VERCEL_TEAM_ID (h_env h))
                                  (tpl_str (VERCEL_TOKEN (h_env h))) tid]) \<and>
             rb_success r \<and> rb_previousDeploymentId r = Some (d_id t) \<and>
             rb_status r = Some ''completed'' \<and> rb_progress r = Some 100"
    using rollback_promoted[of h options log dd log1 t tid resp] by blast
next
  assume a: "filter (eligible (ro_deploymentId options)) (deployments dd) = [t] \<and>
     js_toString (d_id t) = Inr tid \<and>
     h_fetch h log1
       (promote_request (VERCEL_TEAM_ID (h_env h)) (tpl_str (VERCEL_TOKEN (h_env h))) tid)
       = Inr resp \<and>
     resp_ok resp"
  then have "find (eligible (ro_deploymentId options)) (deployments dd) = Some t"
    by (simp add: find_filter_single)
  with a assms obtain r where "executeVercelRollback h options log =
               (Inr r, log1 @ [promote_request (VERCEL_TEAM_ID (h_env h))
                                  (tpl_str (VERCEL_TOKEN (h_env h))) tid])"
       "rb_success r" "rb_previousDeploymentId r = Some (d_id t)"
    using rollback_promoted[of h options log dd log1 t tid resp] by blast
  then show "\<exists>r. fst (executeVercelRollback h options log) = Inr r \<and>
             rb_success r \<and> rb_previousDeploymentId r = Some (d_id t)"
    by simp
next
  assume "filter (eligible (ro_deploymentId options)) (deployments dd) = []"
  then have "find (eligible (ro_deploymentId options)) (deployments dd) = None"
    by (rule find_filter_none)
  with assms show "\<exists>r. executeVercelRollback h options log = (Inr r, log1) \<and>
             \<not> rb_success r \<and> rb_status r = Some ''failed'' \<and> rb_progress r = Some 0 \<and>
             str_includes (rb_message r) ''No suitable deployment found for rollback''"
    using rollback_no_target[of h options log dd log1] by blast
qed

lemma vercel_host_has_token: "\<not> falsy_str (VERCEL_TOKEN (h_env (vercel_host deps)))"
  by (simp add: vercel_host_def no_env_def falsy_str_def)

lemma listed_four:
  "fetchVercelDeployments
     (vercel_host [raw_deployment ''dpl_3'' ''READY'', raw_deployment ''dpl_2'' ''ERROR'',
                   raw_deployment ''dpl_1'' ''READY'', raw_deployment ''dpl_0'' ''READY''])
     \<lparr>vo_projectName = ro_projectName example_rollback, vo_limit = Some 10\<rparr> [] =
   (Inr \<lparr>deployments = [listed ''dpl_3'' ''READY'', listed ''dpl_2'' ''ERROR'',
                         listed ''dpl_1'' ''READY'', listed ''dpl_0'' ''READY'']\<rparr>,
    [list_request])"
  by code_simp

lemma listed_two:
  "fetchVercelDeployments
     (vercel_host [raw_deployment ''dpl_3'' ''READY'', raw_deployment ''dpl_1'' ''READY''])
     \<lparr>vo_projectName = ro_projectName example_rollback, vo_limit = Some 10\<rparr> [] =
   (Inr \<lparr>deployments = [listed ''dpl_3'' ''READY'', listed ''dpl_1'' ''READY'']\<rparr>,
    [list_request])"
  by code_simp

lemma listed_none_eligible:
  "fetchVercelDeployments
     (vercel_host [raw_deployment ''dpl_3'' ''READY'', raw_deployment ''dpl_2'' ''ERROR''])
     \<lparr>vo_projectName = ro_projectName example_rollback, vo_limit = Some 10\<rparr> [] =
   (Inr \<lparr>deployments = [listed ''dpl_3'' ''READY'', listed ''dpl_2'' ''ERROR'']\<rparr>,
    [list_request])"
  by code_simp

lemma eligible_examples:
  "\<not> eligible (ro_deploymentId example_rollback) (listed ''dpl_3'' ''READY'')"
  "\<not> eligible (ro_deploymentId example_rollback) (listed ''dpl_2'' ''ERROR'')"
  "eligible (ro_deploymentId example_rollback) (listed ''dpl_1'' ''READY'')"
  "eligible (ro_deploymentId example_rollback) (listed ''dpl_0'' ''READY'')"
  by (simp_all add: eligible_def example_rollback_def listed_def)

text \<open>
  The theorem at a list with the current deployment, a failed one and two ready ones (the
  first of the two is promoted), at a list with one other ready deployment, and at a list
  with none.
\<close>

theorem rollback_target_selection_witness:
  "(\<exists>r. fst (executeVercelRollback
              (vercel_host [raw_deployment ''dpl_3'' ''READY'', raw_deployment ''dpl_2'' ''ERROR'',
                            raw_deployment ''dpl_1'' ''READY'', raw_deployment ''dpl_0'' ''READY''])
              example_rollback []) = Inr r \<and>
        rb_success r \<and> rb_previousDeploymentId r = Some (JStr ''dpl_1'')) \<and>
   (\<exists>r. fst (executeVercelRollback
              (vercel_host [raw_deployment ''dpl_3'' ''READY'', raw_deployment ''dpl_1'' ''READY''])
              example_rollback []) = Inr r \<and>
        rb_success r \<and> rb_previousDeploymentId r = Some (JStr ''dpl_1'')) \<and>
   (\<exists>r. fst (executeVercelRollback
              (vercel_host [raw_deployment ''dpl_3'' ''READY'', raw_deployment ''dpl_2'' ''ERROR''])
              example_rollback []) = Inr r \<and>
        \<not> rb_success r \<and> rb_status r = Some ''failed'' \<and> rb_progress r = Some 0 \<and>
        str_includes (rb_message r) ''No suitable deployment found for rollback'')"
proof -
  have tid: "js_toString (d_id (listed ''dpl_1'' ''READY'')) = Inr ''dpl_1''"
    by (simp add: listed_def)
  have ok: "h_fetch (vercel_host deps) [list_request]
              (promote_request (VERCEL_TEAM_ID (h_env (vercel_host deps)))
                 (tpl_str (VERCEL_TOKEN (h_env (vercel_host deps)))) ''dpl_1'')
            = Inr (ok_response (JObj []))" for deps
    by (simp add: vercel_host_def promote_request_def)
  have rok: "resp_ok (ok_response (JObj []))"
    by (simp add: ok_response_def)
  have first: "[listed ''dpl_3'' ''READY'', listed ''dpl_2'' ''ERROR'', listed ''dpl_1'' ''READY'',
                listed ''dpl_0'' ''READY''] =
               [listed ''dpl_3'' ''READY'', listed ''dpl_2'' ''ERROR''] @ listed ''dpl_1'' ''READY''
                 # [listed ''dpl_0'' ''READY'']"
    by simp
  have one: "filter (eligible (ro_deploymentId example_rollback))
               [listed ''dpl_3'' ''READY'', listed ''dpl_1'' ''READY''] = [listed ''dpl_1'' ''READY'']"
    by (simp add: eligible_examples)
  have none: "filter (eligible (ro_deploymentId example_rollback))
               [listed ''dpl_3'' ''READY'', listed ''dpl_2'' ''ERROR''] = []"
    by (simp add: eligible_examples)
  have d1: "d_id (listed ''dpl_1'' ''READY'') = JStr ''dpl_1''"
    by (simp add: listed_def)
  have w1: "\<exists>r. fst (executeVercelRollback
              (vercel_host [raw_deployment ''dpl_3'' ''READY'', raw_deployment ''dpl_2'' ''ERROR'',
                            raw_deployment ''dpl_1'' ''READY'', raw_deployment ''dpl_0'' ''READY''])
              example_rollback []) = Inr r \<and>
        rb_success r \<and> rb_previousDeploymentId r = Some (JStr ''dpl_1'')"
    using rollback_target_selection[OF vercel_host_has_token listed_four,
        of "[listed ''dpl_3'' ''READY'', listed ''dpl_2'' ''ERROR'']" "listed ''dpl_1'' ''READY''"
           "[listed ''dpl_0'' ''READY'']" "''dpl_1''" "ok_response (JObj [])"]
      first tid ok rok eligible_examples d1
    by fastforce
  have w2: "\<exists>r. fst (executeVercelRollback
              (vercel_host [raw_deployment ''dpl_3'' ''READY'', raw_deployment ''dpl_1'' ''READY''])
              example_rollback []) = Inr r \<and>
        rb_success r \<and> rb_previousDeploymentId r = Some (JStr ''dpl_1'')"
    using rollback_target_selection[OF vercel_host_has_token listed_two,
        of "[]" "listed ''dpl_1'' ''READY''" "[]" "''dpl_1''" "ok_response (JObj [])"]
      one tid ok rok d1
    by fastforce
  have w3: "\<exists>r. fst (executeVercelRollback
              (vercel_host [raw_deployment ''dpl_3'' ''READY'', raw_deployment ''dpl_2'' ''ERROR''])
              example_rollback []) = Inr r \<and>
        \<not> rb_success r \<and> rb_status r = Some ''failed'' \<and> rb_progress r = Some 0 \<and>
        str_includes (rb_message r) ''No suitable deployment found for rollback''"
    using rollback_target_selection[OF vercel_host_has_token listed_none_eligible,
        of "[]" "listed ''dpl_1'' ''READY''" "[]" "''dpl_1''" "ok_response (JObj [])"]
      none
    by fastforce
  from w1 w2 w3 show ?thesis by blast
qed

end
